theory Spec2Isabelle
  imports Main "HOL-Library.Sublist" "HOL-Library.AList"
begin

section \<open>Python values\<close>

text \<open>
  The client moves JSON-shaped Python values around: what \<open>json.loads\<close> returns, what
  the backend answers, what a tool yields. Text is \<^typ>\<open>string\<close>, so a character is a
  code point below 256. A dict is an association list in insertion order with distinct keys.
  A float is kept as the text of its literal: the conversion to a double and back is floating
  point and is left out.
\<close>

datatype pyval =
    PNone
  | PBool bool
  | PInt int
  | PFloat string
  | PStr string
  | PList "pyval list"
  | PDict "(string \<times> pyval) list"

datatype exn =
    RuntimeError string
  | AttributeError string
  | TypeError string
  | KeyError string

definition type_name :: "pyval \<Rightarrow> string" where
  "type_name v =
     (case v of PNone \<Rightarrow> ''NoneType'' | PBool _ \<Rightarrow> ''bool'' | PInt _ \<Rightarrow> ''int''
      | PFloat _ \<Rightarrow> ''float'' | PStr _ \<Rightarrow> ''str'' | PList _ \<Rightarrow> ''list'' | PDict _ \<Rightarrow> ''dict'')"

definition is_dict :: "pyval \<Rightarrow> bool" where
  "is_dict v = (case v of PDict _ \<Rightarrow> True | _ \<Rightarrow> False)"

text \<open>\<open>float(x) == 0.0\<close> on the literal: every digit of the mantissa is \<open>0\<close>.\<close>

definition float_is_zero :: "string \<Rightarrow> bool" where
  "float_is_zero s =
     (let m = takeWhile (\<lambda>c. c \<noteq> CHR ''e'' \<and> c \<noteq> CHR ''E'') s
      in m \<noteq> ''NaN'' \<and> m \<noteq> ''Infinity'' \<and> m \<noteq> ''-Infinity''
         \<and> list_all (\<lambda>c. c = CHR ''0'' \<or> c = CHR ''.'' \<or> c = CHR ''-'') m)"

text \<open>Python truth value testing, as \<open>if x:\<close> and \<open>not x\<close> use it.\<close>

definition truthy :: "pyval \<Rightarrow> bool" where
  "truthy v =
     (case v of PNone \<Rightarrow> False | PBool b \<Rightarrow> b | PInt i \<Rightarrow> i \<noteq> 0
      | PFloat s \<Rightarrow> \<not> float_is_zero s | PStr s \<Rightarrow> s \<noteq> []
      | PList xs \<Rightarrow> xs \<noteq> [] | PDict d \<Rightarrow> d \<noteq> [])"

text \<open>\<open>d.get(key, default)\<close>; on anything but a dict the attribute lookup raises.\<close>

definition py_get :: "pyval \<Rightarrow> string \<Rightarrow> pyval \<Rightarrow> exn + pyval" where
  "py_get v key dflt =
     (case v of
        PDict d \<Rightarrow> Inr (case map_of d key of Some x \<Rightarrow> x | None \<Rightarrow> dflt)
      | _ \<Rightarrow> Inl (AttributeError ([CHR 0x27] @ type_name v @ [CHR 0x27] @ '' object has no attribute '' @ [CHR 0x27] @ ''get'' @ [CHR 0x27])))"

text \<open>\<open>len(x)\<close> and the items a \<open>for\<close> loop over \<open>x\<close> visits.\<close>

definition py_len :: "pyval \<Rightarrow> exn + nat" where
  "py_len v =
     (case v of
        PStr s \<Rightarrow> Inr (length s) | PList xs \<Rightarrow> Inr (length xs) | PDict d \<Rightarrow> Inr (length d)
      | _ \<Rightarrow> Inl (TypeError (''object of type '' @ [CHR 0x27] @ type_name v @ [CHR 0x27] @ '' has no len()'')))"

definition py_iter :: "pyval \<Rightarrow> pyval list" where
  "py_iter v =
     (case v of
        PStr s \<Rightarrow> map (\<lambda>c. PStr [c]) s | PList xs \<Rightarrow> xs | PDict d \<Rightarrow> map (\<lambda>(k, _). PStr k) d
      | _ \<Rightarrow> [])"

section \<open>Text of values: \<open>json.dumps\<close>, \<open>repr\<close> and \<open>str\<close>\<close>

abbreviation dquote :: char where "dquote \<equiv> CHR 0x22"
abbreviation squote :: char where "squote \<equiv> CHR 0x27"
abbreviation backslash :: char where "backslash \<equiv> CHR 0x5C"

definition hexdigit :: "nat \<Rightarrow> char" where
  "hexdigit n = ''0123456789abcdef'' ! n"

definition decdigit :: "nat \<Rightarrow> char" where
  "decdigit n = ''0123456789'' ! n"

function show_nat :: "nat \<Rightarrow> string" where
  "show_nat n = (if n < 10 then [decdigit n] else show_nat (n div 10) @ [decdigit (n mod 10)])"
  by pat_completeness auto
termination
  by (relation "measure id") auto

definition show_int :: "int \<Rightarrow> string" where
  "show_int i = (if i < 0 then CHR ''-'' # show_nat (nat (- i)) else show_nat (nat i))"

text \<open>
  \<open>json.dumps\<close> with its defaults (\<open>ensure_ascii=True\<close>, separators \<open>', '\<close> and
  \<open>': '\<close>): a character outside \<open>' '..'~'\<close> is written \<open>\uXXXX\<close>.
\<close>

definition json_escape_char :: "char \<Rightarrow> string" where
  "json_escape_char c =
     (if c = dquote then [backslash, dquote]
      else if c = backslash then [backslash, backslash]
      else if c = CHR 0x0A then [backslash, CHR ''n'']
      else if c = CHR 0x0D then [backslash, CHR ''r'']
      else if c = CHR 0x09 then [backslash, CHR ''t'']
      else if c = CHR 0x08 then [backslash, CHR ''b'']
      else if c = CHR 0x0C then [backslash, CHR ''f'']
      else if of_char c < (32::nat) \<or> (126::nat) < of_char c
        then [backslash, CHR ''u'', CHR ''0'', CHR ''0'',
              hexdigit (of_char c div 16), hexdigit (of_char c mod 16)]
      else [c])"

definition json_string :: "string \<Rightarrow> string" where
  "json_string s = [dquote] @ concat (map json_escape_char s) @ [dquote]"

fun json_dumps :: "pyval \<Rightarrow> string"
  and json_dumps_list :: "pyval list \<Rightarrow> string"
  and json_dumps_items :: "(string \<times> pyval) list \<Rightarrow> string" where
  "json_dumps PNone = ''null''"
| "json_dumps (PBool b) = (if b then ''true'' else ''false'')"
| "json_dumps (PInt i) = show_int i"
| "json_dumps (PFloat s) = s"
| "json_dumps (PStr s) = json_string s"
| "json_dumps (PList xs) = ''['' @ json_dumps_list xs @ '']''"
| "json_dumps (PDict d) = ''{'' @ json_dumps_items d @ ''}''"
| "json_dumps_list [] = []"
| "json_dumps_list [x] = json_dumps x"
| "json_dumps_list (x # y # ys) = json_dumps x @ '', '' @ json_dumps_list (y # ys)"
| "json_dumps_items [] = []"
| "json_dumps_items [(k, v)] = json_string k @ '': '' @ json_dumps v"
| "json_dumps_items ((k, v) # kv # kvs) =
     json_string k @ '': '' @ json_dumps v @ '', '' @ json_dumps_items (kv # kvs)"

text \<open>
  \<open>repr\<close> of a \<open>str\<close>: single quotes unless the text holds a single quote and no double
  quote; the quote and the backslash are escaped, tab, newline and carriage return are
  written \<open>\t\<close>, \<open>\n\<close>, \<open>\r\<close>, and a character that is not printable (below
  \<open>' '\<close>, \<open>0x7f\<close> to \<open>0xa0\<close>, \<open>0xad\<close>) is written \<open>\xHH\<close>.
\<close>

definition repr_quote :: "string \<Rightarrow> char" where
  "repr_quote s = (if squote \<in> set s \<and> dquote \<notin> set s then dquote else squote)"

definition repr_char :: "char \<Rightarrow> char \<Rightarrow> string" where
  "repr_char q c =
     (if c = q \<or> c = backslash then [backslash, c]
      else if c = CHR 0x09 then [backslash, CHR ''t'']
      else if c = CHR 0x0A then [backslash, CHR ''n'']
      else if c = CHR 0x0D then [backslash, CHR ''r'']
      else if of_char c < (32::nat) \<or> ((127::nat) \<le> of_char c \<and> of_char c \<le> (160::nat))
              \<or> of_char c = (173::nat)
        then [backslash, CHR ''x'', hexdigit (of_char c div 16), hexdigit (of_char c mod 16)]
      else [c])"

definition repr_str :: "string \<Rightarrow> string" where
  "repr_str s = (let q = repr_quote s in [q] @ concat (map (repr_char q) s) @ [q])"

fun py_repr :: "pyval \<Rightarrow> string"
  and py_repr_list :: "pyval list \<Rightarrow> string"
  and py_repr_items :: "(string \<times> pyval) list \<Rightarrow> string" where
  "py_repr PNone = ''None''"
| "py_repr (PBool b) = (if b then ''True'' else ''False'')"
| "py_repr (PInt i) = show_int i"
| "py_repr (PFloat s) =
     (if s = ''NaN'' then ''nan'' else if s = ''Infinity'' then ''inf''
      else if s = ''-Infinity'' then ''-inf'' else s)"
| "py_repr (PStr s) = repr_str s"
| "py_repr (PList xs) = ''['' @ py_repr_list xs @ '']''"
| "py_repr (PDict d) = ''{'' @ py_repr_items d @ ''}''"
| "py_repr_list [] = []"
| "py_repr_list [x] = py_repr x"
| "py_repr_list (x # y # ys) = py_repr x @ '', '' @ py_repr_list (y # ys)"
| "py_repr_items [] = []"
| "py_repr_items [(k, v)] = repr_str k @ '': '' @ py_repr v"
| "py_repr_items ((k, v) # kv # kvs) =
     repr_str k @ '': '' @ py_repr v @ '', '' @ py_repr_items (kv # kvs)"

text \<open>\<open>str(x)\<close>, also what an f-string inserts: a \<open>str\<close> is itself, the rest its \<open>repr\<close>.\<close>

definition py_str :: "pyval \<Rightarrow> string" where
  "py_str v = (case v of PStr s \<Rightarrow> s | _ \<Rightarrow> py_repr v)"

definition str_exn :: "exn \<Rightarrow> string" where
  "str_exn e =
     (case e of RuntimeError m \<Rightarrow> m | AttributeError m \<Rightarrow> m | TypeError m \<Rightarrow> m
      | KeyError k \<Rightarrow> repr_str k)"

section \<open>Reading JSON: \<open>json.loads\<close>\<close>

text \<open>
  \<open>json.loads\<close> is modelled by a tokenizer followed by a stack parser over the tokens.
  \<open>None\<close> stands for \<open>JSONDecodeError\<close>. As in Python, \<open>NaN\<close>, \<open>Infinity\<close> and
  \<open>-Infinity\<close> are read as floats, an unescaped control character inside a string is an
  error, and a repeated key keeps its first position and its last value. An escape
  \<open>\uXXXX\<close> for a code point of 256 or more has no value in \<^typ>\<open>string\<close> and is refused
  here.
\<close>

datatype token = LBrace | RBrace | LBracket | RBracket | Colon | Comma | Scalar pyval

definition ws :: "char \<Rightarrow> bool" where
  "ws c \<longleftrightarrow> c = CHR '' '' \<or> c = CHR 0x09 \<or> c = CHR 0x0A \<or> c = CHR 0x0D"

definition digit :: "char \<Rightarrow> bool" where
  "digit c \<longleftrightarrow> (48::nat) \<le> of_char c \<and> of_char c \<le> (57::nat)"

definition digits_value :: "string \<Rightarrow> nat" where
  "digits_value ds = foldl (\<lambda>n c. 10 * n + (of_char c - 48)) 0 ds"

definition hexval :: "char \<Rightarrow> nat option" where
  "hexval c =
     (let n = of_char c :: nat
      in if 48 \<le> n \<and> n \<le> 57 then Some (n - 48)
         else if 97 \<le> n \<and> n \<le> 102 then Some (n - 87)
         else if 65 \<le> n \<and> n \<le> 70 then Some (n - 55)
         else None)"

definition hex4 :: "char \<Rightarrow> char \<Rightarrow> char \<Rightarrow> char \<Rightarrow> nat option" where
  "hex4 a b c d =
     (case (hexval a, hexval b, hexval c, hexval d) of
        (Some x, Some y, Some z, Some u) \<Rightarrow> Some (((x * 16 + y) * 16 + z) * 16 + u)
      | _ \<Rightarrow> None)"

definition unescape :: "char \<Rightarrow> char option" where
  "unescape e =
     (if e = dquote \<or> e = backslash \<or> e = CHR ''/'' then Some e
      else if e = CHR ''b'' then Some (CHR 0x08)
      else if e = CHR ''f'' then Some (CHR 0x0C)
      else if e = CHR ''n'' then Some (CHR 0x0A)
      else if e = CHR ''r'' then Some (CHR 0x0D)
      else if e = CHR ''t'' then Some (CHR 0x09)
      else None)"

definition with_char :: "char \<Rightarrow> (string \<times> string) option \<Rightarrow> (string \<times> string) option" where
  "with_char c r = map_option (\<lambda>(s, rest). (c # s, rest)) r"

text \<open>The text after an opening quote: the decoded string and what follows its closing quote.\<close>

fun scan_string :: "string \<Rightarrow> (string \<times> string) option" where
  "scan_string [] = None"
| "scan_string (c # cs) =
     (if c = dquote then Some ([], cs)
      else if c = backslash then
        (case cs of
           [] \<Rightarrow> None
         | e # r \<Rightarrow>
             if e = CHR ''u'' then
               (case r of
                  a # b # x # y # r' \<Rightarrow>
                    (case hex4 a b x y of
                       None \<Rightarrow> None
                     | Some n \<Rightarrow> if n < 256 then with_char (char_of n) (scan_string r') else None)
                | _ \<Rightarrow> None)
             else
               (case unescape e of
                  None \<Rightarrow> None
                | Some u \<Rightarrow> with_char u (scan_string r)))
      else if of_char c < (32::nat) then None
      else with_char c (scan_string cs))"

definition scan_exponent :: "string \<Rightarrow> string \<times> string" where
  "scan_exponent s =
     (case s of
        [] \<Rightarrow> ([], s)
      | e # r \<Rightarrow>
          if e = CHR ''e'' \<or> e = CHR ''E'' then
            (let (sg, r') = (case r of
                               [] \<Rightarrow> ([], r)
                             | c # r'' \<Rightarrow> if c = CHR ''+'' \<or> c = CHR ''-'' then ([c], r'') else ([], r))
             in if takeWhile digit r' \<noteq> []
                then (e # sg @ takeWhile digit r', dropWhile digit r')
                else ([], s))
          else ([], s))"

text \<open>
  A number at the head of the text, after the pattern
  \<open>-?(0|[1-9][0-9]*)(\.[0-9]+)?([eE][-+]?[0-9]+)?\<close>: an \<open>int\<close> when it has neither
  fraction nor exponent, a \<open>float\<close> otherwise.
\<close>

definition scan_sign :: "string \<Rightarrow> bool \<times> string" where
  "scan_sign s =
     (case s of
        [] \<Rightarrow> (False, s)
      | c # r \<Rightarrow> if c = CHR ''-'' then (True, r) else (False, s))"

definition scan_int_part :: "string \<Rightarrow> string \<times> string" where
  "scan_int_part s =
     (case s of
        [] \<Rightarrow> ([], s)
      | c # r \<Rightarrow> if c = CHR ''0'' then ([c], r) else (takeWhile digit s, dropWhile digit s))"

definition scan_fraction :: "string \<Rightarrow> string \<times> string" where
  "scan_fraction s =
     (case s of
        [] \<Rightarrow> ([], s)
      | c # r \<Rightarrow> if c = CHR ''.'' \<and> takeWhile digit r \<noteq> []
                 then (c # takeWhile digit r, dropWhile digit r)
                 else ([], s))"

definition scan_number :: "string \<Rightarrow> (pyval \<times> string) option" where
  "scan_number s =
     (let (neg, s1) = scan_sign s;
          (ip, s2) = scan_int_part s1;
          (frac, s3) = scan_fraction s2;
          (ex, s4) = scan_exponent s3
      in if ip = [] then None
         else if frac = [] \<and> ex = []
           then Some (PInt (if neg then - int (digits_value ip) else int (digits_value ip)), s4)
         else Some (PFloat ((if neg then ''-'' else []) @ ip @ frac @ ex), s4))"

definition with_token :: "token \<Rightarrow> token list option \<Rightarrow> token list option" where
  "with_token t r = map_option ((#) t) r"

function lex :: "string \<Rightarrow> token list option" where
  "lex [] = Some []"
| "lex (c # cs) =
     (if ws c then lex cs
      else if c = CHR ''{'' then with_token LBrace (lex cs)
      else if c = CHR ''}'' then with_token RBrace (lex cs)
      else if c = CHR ''['' then with_token LBracket (lex cs)
      else if c = CHR '']'' then with_token RBracket (lex cs)
      else if c = CHR '':'' then with_token Colon (lex cs)
      else if c = CHR '','' then with_token Comma (lex cs)
      else if c = dquote then
        (case scan_string cs of
           None \<Rightarrow> None
         | Some (s, r) \<Rightarrow> with_token (Scalar (PStr s)) (lex r))
      else if take 4 (c # cs) = ''null'' then with_token (Scalar PNone) (lex (drop 3 cs))
      else if take 4 (c # cs) = ''true'' then with_token (Scalar (PBool True)) (lex (drop 3 cs))
      else if take 5 (c # cs) = ''false'' then with_token (Scalar (PBool False)) (lex (drop 4 cs))
      else if take 3 (c # cs) = ''NaN'' then with_token (Scalar (PFloat ''NaN'')) (lex (drop 2 cs))
      else if take 8 (c # cs) = ''Infinity''
        then with_token (Scalar (PFloat ''Infinity'')) (lex (drop 7 cs))
      else if take 9 (c # cs) = ''-Infinity''
        then with_token (Scalar (PFloat ''-Infinity'')) (lex (drop 8 cs))
      else
        (case scan_number (c # cs) of
           None \<Rightarrow> None
         | Some (v, r) \<Rightarrow> with_token (Scalar v) (lex r)))"
  by pat_completeness auto
termination
proof -
  have str: "scan_string cs = Some (s, r) \<Longrightarrow> length r \<le> length cs" for cs s r
  proof (induction cs arbitrary: s r rule: scan_string.induct)
    case 1
    then show ?case by simp
  next
    case (2 c cs)
    then show ?case
      by (fastforce simp: with_char_def le_Suc_eq split: if_splits list.splits option.splits)
  qed
  have ex: "length (snd (scan_exponent t)) \<le> length t" for t
    by (auto simp: scan_exponent_def le_Suc_eq split: list.splits prod.splits if_splits
        intro: le_trans [OF length_dropWhile_le])
  have dw: "takeWhile digit t \<noteq> [] \<Longrightarrow> length (dropWhile digit t) < length t" for t
    by (cases t) (auto simp: less_Suc_eq_le length_dropWhile_le split: if_splits)
  have sg: "length (snd (scan_sign t)) \<le> length t" for t
    by (auto simp: scan_sign_def split: list.splits)
  have ip: "fst (scan_int_part t) \<noteq> [] \<Longrightarrow> length (snd (scan_int_part t)) < length t" for t
    using dw [of t] by (auto simp: scan_int_part_def split: list.splits if_splits)
  have fr: "length (snd (scan_fraction t)) \<le> length t" for t
    using length_dropWhile_le [of digit]
    by (auto simp: scan_fraction_def le_Suc_eq split: list.splits)
  have num: "scan_number t = Some (v, r) \<Longrightarrow> length r < length t" for t v r
  proof -
    assume a: "scan_number t = Some (v, r)"
    obtain neg s1 where s1: "scan_sign t = (neg, s1)" by (cases "scan_sign t")
    obtain ds s2 where s2: "scan_int_part s1 = (ds, s2)" by (cases "scan_int_part s1")
    obtain frac s3 where s3: "scan_fraction s2 = (frac, s3)" by (cases "scan_fraction s2")
    obtain ex' s4 where s4: "scan_exponent s3 = (ex', s4)" by (cases "scan_exponent s3")
    from a have nonempty: "ds \<noteq> []" and r: "r = s4"
      by (auto simp: scan_number_def s1 s2 s3 s4 split: if_splits)
    have "length s1 \<le> length t" using sg [of t] s1 by simp
    moreover have "length s2 < length s1" using ip [of s1] s2 nonempty by simp
    moreover have "length s3 \<le> length s2" using fr [of s2] s3 by simp
    moreover have "length s4 \<le> length s3" using ex [of s3] s4 by simp
    ultimately show ?thesis using r by simp
  qed
  show ?thesis
    by (relation "measure length") (use str in \<open>auto simp: less_Suc_eq_le dest!: num\<close>)
qed

datatype frame = ArrayFrame "pyval list" | ObjectFrame "(string \<times> pyval) list" "string option"

datatype expect =
    ExpValue
  | ExpValueOrClose
  | ExpKey
  | ExpKeyOrClose
  | ExpColon
  | ExpSepOrClose
  | ExpEnd pyval

definition accept_value :: "pyval \<Rightarrow> frame list \<Rightarrow> expect \<times> frame list" where
  "accept_value v fs =
     (case fs of
        [] \<Rightarrow> (ExpEnd v, [])
      | ArrayFrame acc # fs' \<Rightarrow> (ExpSepOrClose, ArrayFrame (acc @ [v]) # fs')
      | ObjectFrame acc key # fs' \<Rightarrow>
          (ExpSepOrClose,
           ObjectFrame (case key of Some k \<Rightarrow> AList.update k v acc | None \<Rightarrow> acc) None # fs'))"

definition start_value :: "frame list \<Rightarrow> token \<Rightarrow> (expect \<times> frame list) option" where
  "start_value fs t =
     (case t of
        Scalar v \<Rightarrow> Some (accept_value v fs)
      | LBracket \<Rightarrow> Some (ExpValueOrClose, ArrayFrame [] # fs)
      | LBrace \<Rightarrow> Some (ExpKeyOrClose, ObjectFrame [] None # fs)
      | _ \<Rightarrow> None)"

definition close_array :: "frame list \<Rightarrow> (expect \<times> frame list) option" where
  "close_array fs =
     (case fs of ArrayFrame acc # fs' \<Rightarrow> Some (accept_value (PList acc) fs') | _ \<Rightarrow> None)"

definition close_object :: "frame list \<Rightarrow> (expect \<times> frame list) option" where
  "close_object fs =
     (case fs of ObjectFrame acc None # fs' \<Rightarrow> Some (accept_value (PDict acc) fs') | _ \<Rightarrow> None)"

definition read_key :: "frame list \<Rightarrow> token \<Rightarrow> (expect \<times> frame list) option" where
  "read_key fs t =
     (case (t, fs) of
        (Scalar (PStr k), ObjectFrame acc _ # fs') \<Rightarrow> Some (ExpColon, ObjectFrame acc (Some k) # fs')
      | _ \<Rightarrow> None)"

definition parse_step :: "expect \<Rightarrow> frame list \<Rightarrow> token \<Rightarrow> (expect \<times> frame list) option" where
  "parse_step e fs t =
     (case e of
        ExpValue \<Rightarrow> start_value fs t
      | ExpValueOrClose \<Rightarrow> if t = RBracket then close_array fs else start_value fs t
      | ExpKey \<Rightarrow> read_key fs t
      | ExpKeyOrClose \<Rightarrow> if t = RBrace then close_object fs else read_key fs t
      | ExpColon \<Rightarrow> if t = Colon then Some (ExpValue, fs) else None
      | ExpSepOrClose \<Rightarrow>
          (case fs of
             ArrayFrame _ # _ \<Rightarrow>
               if t = Comma then Some (ExpValue, fs)
               else if t = RBracket then close_array fs else None
           | ObjectFrame _ _ # _ \<Rightarrow>
               if t = Comma then Some (ExpKey, fs)
               else if t = RBrace then close_object fs else None
           | [] \<Rightarrow> None)
      | ExpEnd _ \<Rightarrow> None)"

fun parse_tokens :: "expect \<Rightarrow> frame list \<Rightarrow> token list \<Rightarrow> pyval option" where
  "parse_tokens e fs [] = (case e of ExpEnd v \<Rightarrow> Some v | _ \<Rightarrow> None)"
| "parse_tokens e fs (t # ts) =
     (case parse_step e fs t of
        None \<Rightarrow> None
      | Some (e', fs') \<Rightarrow> parse_tokens e' fs' ts)"

definition json_loads :: "string \<Rightarrow> pyval option" where
  "json_loads s = (case lex s of None \<Rightarrow> None | Some ts \<Rightarrow> parse_tokens ExpValue [] ts)"

section \<open>Conversation state\<close>

text \<open>
  A turn is the dict the orchestrator appends to \<open>conversation_history\<close>: \<open>role\<close>,
  \<open>content\<close> and, on an assistant turn that requests tools, \<open>tool_calls\<close>.
\<close>

datatype role = User | Assistant | Tool

record turn =
  role :: role
  content :: pyval
  tool_calls :: "pyval option"

definition user_turn :: "string \<Rightarrow> turn" where
  "user_turn user_input = \<lparr>role = User, content = PStr user_input, tool_calls = None\<rparr>"

definition assistant_turn :: "pyval \<Rightarrow> turn" where
  "assistant_turn c = \<lparr>role = Assistant, content = c, tool_calls = None\<rparr>"

definition assistant_call_turn :: "pyval \<Rightarrow> pyval \<Rightarrow> turn" where
  "assistant_call_turn c calls = \<lparr>role = Assistant, content = c, tool_calls = Some calls\<rparr>"

definition tool_turn :: "string \<Rightarrow> turn" where
  "tool_turn text = \<lparr>role = Tool, content = PStr text, tool_calls = None\<rparr>"

section \<open>Tool Registry Adapter: \<open>convert_mcp_tools_to_ollama_format\<close> (client/llm.py)\<close>

text \<open>\<open>d[key]\<close> on a dict.\<close>

definition py_index :: "(string \<times> pyval) list \<Rightarrow> string \<Rightarrow> exn + pyval" where
  "py_index d key = (case map_of d key of Some v \<Rightarrow> Inr v | None \<Rightarrow> Inl (KeyError key))"

definition convert_tool :: "(string \<times> pyval) list \<Rightarrow> exn + pyval" where
  "convert_tool tool =
     (case py_index tool ''name'' of
        Inl e \<Rightarrow> Inl e
      | Inr name \<Rightarrow>
          (case py_index tool ''description'' of
             Inl e \<Rightarrow> Inl e
           | Inr description \<Rightarrow>
               (case py_index tool ''inputSchema'' of
                  Inl e \<Rightarrow> Inl e
                | Inr schema \<Rightarrow>
                    Inr (PDict [(''type'', PStr ''function''),
                                (''function'', PDict [(''name'', name),
                                                      (''description'', description),
                                                      (''parameters'', schema)])]))))"

fun convert_mcp_tools_to_ollama_format :: "(string \<times> pyval) list list \<Rightarrow> exn + pyval list" where
  "convert_mcp_tools_to_ollama_format [] = Inr []"
| "convert_mcp_tools_to_ollama_format (tool # mcp_tools) =
     (case convert_tool tool of
        Inl e \<Rightarrow> Inl e
      | Inr ollama_tool \<Rightarrow>
          (case convert_mcp_tools_to_ollama_format mcp_tools of
             Inl e \<Rightarrow> Inl e
           | Inr ollama_tools \<Rightarrow> Inr (ollama_tool # ollama_tools)))"

section \<open>Model Backend Client: \<open>OllamaClient.chat\<close> (client/llm.py)\<close>

record ollama_client =
  base_url :: string
  model :: string

record payload =
  payload_model :: string
  payload_messages :: "turn list"
  payload_stream :: bool
  payload_tools :: "pyval list option"

text \<open>
  What the \<open>try\<close> block of \<open>chat\<close> (\<open>post\<close>, \<open>raise_for_status\<close>, \<open>json\<close>) comes to:
  the decoded body, or the exception, by the class the \<open>except\<close> clauses tell apart.
  \<open>HTTPStatusError\<close> carries the status code and the body text, the others \<open>str(e)\<close>.
  The world \<open>'w\<close> is everything outside the client: it is handed to each call and returned.
\<close>

datatype http_outcome =
    Json pyval
  | ConnectError string
  | TimeoutException string
  | HTTPStatusError nat string
  | OtherException string

type_synonym 'w transport = "'w \<Rightarrow> string \<Rightarrow> payload \<Rightarrow> http_outcome \<times> 'w"

abbreviation newline :: char where "newline \<equiv> CHR 0x0A"

definition chat_payload :: "ollama_client \<Rightarrow> turn list \<Rightarrow> pyval list option \<Rightarrow> payload" where
  "chat_payload self messages tools =
     \<lparr>payload_model = model self, payload_messages = messages, payload_stream = False,
      payload_tools = (case tools of
                         None \<Rightarrow> None
                       | Some ts \<Rightarrow> if ts \<noteq> [] then Some ts else None)\<rparr>"

definition chat ::
  "'w transport \<Rightarrow> ollama_client \<Rightarrow> 'w \<Rightarrow> turn list \<Rightarrow> pyval list option \<Rightarrow> (exn + pyval) \<times> 'w" where
  "chat post self w messages tools =
     (case post w (base_url self @ ''/api/chat'') (chat_payload self messages tools) of
        (Json result, w') \<Rightarrow> (Inr result, w')
      | (ConnectError e, w') \<Rightarrow>
          (Inl (RuntimeError (''Cannot connect to Ollama at '' @ base_url self @ ''.'' @ [newline]
                              @ ''Please ensure Ollama is running:'' @ [newline]
                              @ ''  ollama serve'')), w')
      | (TimeoutException e, w') \<Rightarrow>
          (Inl (RuntimeError
             ''Ollama request timed out. The model might be too large or the system is busy.''), w')
      | (HTTPStatusError status_code text, w') \<Rightarrow>
          if status_code = 404 then
            (Inl (RuntimeError (''Model '' @ [squote] @ model self @ [squote]
                                @ '' not found in Ollama.'' @ [newline]
                                @ ''Please pull the model first:'' @ [newline]
                                @ ''  ollama pull '' @ model self)), w')
          else (Inl (RuntimeError (''Ollama API error: '' @ text)), w')
      | (OtherException e, w') \<Rightarrow>
          (Inl (RuntimeError (''Unexpected error communicating with Ollama: '' @ e)), w'))"

section \<open>Tool Executor: \<open>MCPClient.call_tool\<close> (client/mcp.py)\<close>

text \<open>
  A content item of a tool result: one with a \<open>text\<close> attribute, or any other, kept as
  its \<open>str\<close>. The provider session either raises (with \<open>str(e)\<close>) or returns the content.
\<close>

datatype content_item = TextContent string | OtherContent string

datatype call_outcome = Raised string | Returned "content_item list"

type_synonym 'w session = "'w \<Rightarrow> pyval \<Rightarrow> pyval \<Rightarrow> call_outcome \<times> 'w"

definition extract_content :: "content_item list \<Rightarrow> pyval" where
  "extract_content result_content =
     (case result_content of
        [] \<Rightarrow> PNone
      | content_item # _ \<Rightarrow>
          (case content_item of
             TextContent text \<Rightarrow>
               (case json_loads text of Some parsed_result \<Rightarrow> parsed_result | None \<Rightarrow> PStr text)
           | OtherContent s \<Rightarrow> PStr s))"

definition call_tool ::
  "'w session option \<Rightarrow> 'w \<Rightarrow> pyval \<Rightarrow> pyval \<Rightarrow> (exn + pyval) \<times> 'w" where
  "call_tool session w tool_name arguments =
     (case session of
        None \<Rightarrow> (Inl (RuntimeError ''MCP client not connected''), w)
      | Some session_call_tool \<Rightarrow>
          (case session_call_tool w tool_name arguments of
             (Returned result_content, w') \<Rightarrow> (Inr (extract_content result_content), w')
           | (Raised e, w') \<Rightarrow>
               (Inl (RuntimeError (''Tool '' @ [squote] @ py_str tool_name @ [squote]
                                   @ '' execution failed: '' @ e)), w')))"

section \<open>Weather tool handler: \<open>handle_get_current_weather\<close> (weather\_mcp/tools/weather.py)\<close>

text \<open>
  The weather service either raises (with \<open>str(e)\<close>) or returns the weather data, which
  \<open>model_dump_json\<close> turns into text.
\<close>

type_synonym ('v, 'd) weather_service = "'v \<Rightarrow> pyval \<Rightarrow> pyval \<Rightarrow> (string + 'd) \<times> 'v"

definition handle_get_current_weather ::
  "('d \<Rightarrow> string) \<Rightarrow> ('v, 'd) weather_service \<Rightarrow> 'v \<Rightarrow> pyval \<Rightarrow> pyval \<Rightarrow> content_item list \<times> 'v" where
  "handle_get_current_weather model_dump_json get_current_weather v city country =
     (case get_current_weather v city country of
        (Inr weather_data, v') \<Rightarrow> ([TextContent (model_dump_json weather_data)], v')
      | (Inl e, v') \<Rightarrow>
          ([TextContent (py_str (PDict [(''error'', PStr e), (''city'', city),
                                        (''country'', country)]))], v'))"

section \<open>Orchestration loop: \<open>WeatherOrchestrator.process_query\<close> (client/orchestrator.py)\<close>

record 'w orchestrator =
  llm :: ollama_client
  llm_post :: "'w transport"
  mcp :: "'w session option"
  tools :: "(string \<times> pyval) list list"

definition max_iterations :: nat where
  "max_iterations = 5"

definition could_not_connect :: string where
  "could_not_connect = ''Could not connect to Ollama. Please ensure it'' @ [squote] @ ''s running:''
     @ [newline] @ ''  ollama serve''"

definition apology :: string where
  "apology = ''I apologize, but I couldn'' @ [squote]
     @ ''t complete your request after multiple attempts.''"

text \<open>The body of \<open>for tool_call in tool_calls\<close>: one call, one appended turn.\<close>

definition result_content :: "pyval \<Rightarrow> string" where
  "result_content tool_result =
     (if is_dict tool_result then json_dumps tool_result else py_str tool_result)"

definition error_content :: "exn \<Rightarrow> string" where
  "error_content e = json_dumps (PDict [(''error'', PStr (str_exn e))])"

definition run_tool_call ::
  "'w session option \<Rightarrow> pyval \<Rightarrow> 'w \<times> turn list \<Rightarrow> (exn + unit) \<times> 'w \<times> turn list" where
  "run_tool_call session tool_call s =
     (case s of (w, history) \<Rightarrow>
        (case py_get tool_call ''function'' (PDict []) of
           Inl e \<Rightarrow> (Inl e, w, history)
         | Inr function \<Rightarrow>
             (case py_get function ''name'' PNone of
                Inl e \<Rightarrow> (Inl e, w, history)
              | Inr tool_name \<Rightarrow>
                  (case py_get function ''arguments'' (PDict []) of
                     Inl e \<Rightarrow> (Inl e, w, history)
                   | Inr arguments \<Rightarrow>
                       (case call_tool session w tool_name arguments of
                          (Inr tool_result, w') \<Rightarrow>
                            (Inr (), w', history @ [tool_turn (result_content tool_result)])
                        | (Inl e, w') \<Rightarrow>
                            (Inr (), w', history @ [tool_turn (error_content e)]))))))"

fun run_tool_calls ::
  "'w session option \<Rightarrow> pyval list \<Rightarrow> 'w \<times> turn list \<Rightarrow> (exn + unit) \<times> 'w \<times> turn list" where
  "run_tool_calls session [] s = (Inr (), s)"
| "run_tool_calls session (tool_call # rest) s =
     (case run_tool_call session tool_call s of
        (Inl e, s') \<Rightarrow> (Inl e, s')
      | (Inr _, s') \<Rightarrow> run_tool_calls session rest s')"

text \<open>
  One pass through the body of the \<open>while\<close> loop: it leaves the function (a \<open>return\<close> or
  an exception) or goes round again.
\<close>

datatype 'w pass = Leave "exn + pyval" "'w \<times> turn list" | Again "'w \<times> turn list"

definition inference_pass ::
  "'w orchestrator \<Rightarrow> pyval list option \<Rightarrow> 'w \<times> turn list \<Rightarrow> 'w pass" where
  "inference_pass self ollama_tools s =
     (case s of (w, history) \<Rightarrow>
        (case chat (llm_post self) (llm self) w history ollama_tools of
           (Inl e, w1) \<Rightarrow> Leave (Inl (RuntimeError could_not_connect)) (w1, history)
         | (Inr response, w1) \<Rightarrow>
             (case py_get response ''message'' (PDict []) of
                Inl e \<Rightarrow> Leave (Inl e) (w1, history)
              | Inr message \<Rightarrow>
                  (case py_get message ''content'' (PStr []) of
                     Inl e \<Rightarrow> Leave (Inl e) (w1, history)
                   | Inr c \<Rightarrow>
                       (case py_get message ''tool_calls'' (PList []) of
                          Inl e \<Rightarrow> Leave (Inl e) (w1, history)
                        | Inr calls \<Rightarrow>
                            if \<not> truthy calls
                            then Leave (Inr c) (w1, history @ [assistant_turn c])
                            else
                              (case py_len calls of
                                 Inl e \<Rightarrow> Leave (Inl e) (w1, history)
                               | Inr _ \<Rightarrow>
                                   (case run_tool_calls (mcp self) (py_iter calls)
                                           (w1, history @ [assistant_call_turn c calls]) of
                                      (Inl e, s') \<Rightarrow> Leave (Inl e) s'
                                    | (Inr _, s') \<Rightarrow> Again s')))))))"

function query_loop ::
  "'w orchestrator \<Rightarrow> pyval list option \<Rightarrow> nat \<Rightarrow> 'w \<times> turn list
     \<Rightarrow> (exn + pyval) \<times> nat \<times> 'w \<times> turn list" where
  "query_loop self ollama_tools iteration s =
     (if iteration < max_iterations then
        (case inference_pass self ollama_tools s of
           Leave r s' \<Rightarrow> (r, iteration + 1, s')
         | Again s' \<Rightarrow> query_loop self ollama_tools (iteration + 1) s')
      else (Inr (PStr apology), iteration, s))"
  by pat_completeness auto
termination
  by (relation "measure (\<lambda>(self, ollama_tools, iteration, s). max_iterations - iteration)") auto

declare query_loop.simps [simp del]

text \<open>The tool list handed to the backend: \<open>None\<close> when no tool was discovered.\<close>

definition prepare_tools :: "'w orchestrator \<Rightarrow> exn + pyval list option" where
  "prepare_tools self =
     (if tools self \<noteq> []
      then map_sum id Some (convert_mcp_tools_to_ollama_format (tools self))
      else Inr None)"

definition process_query ::
  "'w orchestrator \<Rightarrow> string \<Rightarrow> 'w \<times> turn list \<Rightarrow> (exn + pyval) \<times> 'w \<times> turn list" where
  "process_query self user_input s =
     (case s of (w, history) \<Rightarrow>
        (let history1 = history @ [user_turn user_input]
         in case prepare_tools self of
              Inl e \<Rightarrow> (Inl e, w, history1)
            | Inr ollama_tools \<Rightarrow>
                (case query_loop self ollama_tools 0 (w, history1) of
                   (r, iteration, s') \<Rightarrow> (r, s'))))"

section \<open>The caller: the query step of \<open>main\<close> (client/main.py)\<close>

text \<open>What \<open>main\<close> prints for a query; the exception of a failed query ends there.\<close>

definition main_query :: "'w orchestrator \<Rightarrow> string \<Rightarrow> 'w \<times> turn list \<Rightarrow> string \<times> 'w \<times> turn list" where
  "main_query self user_input s =
     (case process_query self user_input s of
        (Inr response, s') \<Rightarrow> ([newline] @ ''Assistant: '' @ py_str response @ [newline], s')
      | (Inl e, s') \<Rightarrow> ([newline] @ ''Error: '' @ str_exn e @ [newline], s'))"

section \<open>Notions used to state the properties\<close>

text \<open>A descriptor that has the three fields, and the entry the adapter makes of it.\<close>

definition has_fields :: "(string \<times> pyval) list \<Rightarrow> bool" where
  "has_fields tool \<longleftrightarrow>
     map_of tool ''name'' \<noteq> None \<and> map_of tool ''description'' \<noteq> None
     \<and> map_of tool ''inputSchema'' \<noteq> None"

definition carried :: "(string \<times> pyval) list \<Rightarrow> pyval" where
  "carried tool =
     PDict [(''type'', PStr ''function''),
            (''function'', PDict [(''name'', the (map_of tool ''name'')),
                                  (''description'', the (map_of tool ''description'')),
                                  (''parameters'', the (map_of tool ''inputSchema''))])]"

definition tool_a :: "(string \<times> pyval) list" where
  "tool_a = [(''name'', PStr ''get_current_weather''), (''description'', PStr ''Weather''),
             (''inputSchema'', PDict [(''type'', PStr ''object'')])]"

definition tool_b :: "(string \<times> pyval) list" where
  "tool_b = [(''name'', PStr ''b''), (''description'', PNone), (''inputSchema'', PDict [])]"

text \<open>
  A tool-call request as the loop reads it: a dict whose \<open>function\<close>, when present, is a
  dict; the name and the arguments the loop takes from it.
\<close>

definition is_request :: "pyval \<Rightarrow> bool" where
  "is_request tool_call =
     (case tool_call of
        PDict d \<Rightarrow> (case map_of d ''function'' of None \<Rightarrow> True | Some f \<Rightarrow> is_dict f)
      | _ \<Rightarrow> False)"

definition request_function :: "pyval \<Rightarrow> (string \<times> pyval) list" where
  "request_function tool_call =
     (case tool_call of
        PDict d \<Rightarrow> (case map_of d ''function'' of Some (PDict f) \<Rightarrow> f | _ \<Rightarrow> [])
      | _ \<Rightarrow> [])"

definition request_name :: "pyval \<Rightarrow> pyval" where
  "request_name tool_call =
     (case map_of (request_function tool_call) ''name'' of Some n \<Rightarrow> n | None \<Rightarrow> PNone)"

definition request_arguments :: "pyval \<Rightarrow> pyval" where
  "request_arguments tool_call =
     (case map_of (request_function tool_call) ''arguments'' of Some a \<Rightarrow> a | None \<Rightarrow> PDict [])"

text \<open>The turn that records the outcome of one call.\<close>

definition turn_of_outcome :: "exn + pyval \<Rightarrow> turn" where
  "turn_of_outcome r =
     (case r of Inr tool_result \<Rightarrow> tool_turn (result_content tool_result)
      | Inl e \<Rightarrow> tool_turn (error_content e))"

text \<open>
  The outcomes of the requests of a batch when they are invoked one after the other in the
  order of the list, each in the world the one before it left.
\<close>

fun outcomes :: "'w session option \<Rightarrow> 'w \<Rightarrow> pyval list \<Rightarrow> (exn + pyval) list \<times> 'w" where
  "outcomes session w [] = ([], w)"
| "outcomes session w (tool_call # rest) =
     (case call_tool session w (request_name tool_call) (request_arguments tool_call) of
        (r, w') \<Rightarrow> (case outcomes session w' rest of (rs, w'') \<Rightarrow> (r # rs, w'')))"

text \<open>The state after \<open>k\<close> passes that all went round again, if they did.\<close>

fun passes ::
  "'w orchestrator \<Rightarrow> pyval list option \<Rightarrow> nat \<Rightarrow> 'w \<times> turn list \<Rightarrow> ('w \<times> turn list) option" where
  "passes self ollama_tools 0 s = Some s"
| "passes self ollama_tools (Suc k) s =
     (case inference_pass self ollama_tools s of
        Again s' \<Rightarrow> passes self ollama_tools k s'
      | Leave _ _ \<Rightarrow> None)"

text \<open>
  A counter of backend calls, kept in the world: the transport adds one at each call, the
  tool session leaves it alone.
\<close>

definition counting :: "'w transport \<Rightarrow> (nat \<times> 'w) transport" where
  "counting post = (\<lambda>(n, w) url p. case post w url p of (r, w') \<Rightarrow> (r, (Suc n, w')))"

definition uncounted :: "'w session \<Rightarrow> (nat \<times> 'w) session" where
  "uncounted session_call_tool =
     (\<lambda>(n, w) tool_name arguments.
        case session_call_tool w tool_name arguments of (r, w') \<Rightarrow> (r, (n, w')))"

definition counted :: "'w orchestrator \<Rightarrow> (nat \<times> 'w) orchestrator" where
  "counted self =
     \<lparr>llm = llm self, llm_post = counting (llm_post self),
      mcp = map_option uncounted (mcp self), tools = tools self\<rparr>"

text \<open>
  A small concrete setting: the world is the log of the calls made, in order. The backend
  asks for two tools in every answer (or gives a final answer, or is unreachable); the
  provider knows one tool and raises on any other.
\<close>

definition demo_calls :: pyval where
  "demo_calls =
     PList [PDict [(''function'', PDict [(''name'', PStr ''lookup''), (''arguments'', PDict [])])],
            PDict [(''function'', PDict [(''name'', PStr ''get_current_weather''),
                                         (''arguments'', PDict [(''city'', PStr ''Paris'')])])]]"

definition asking_post :: "string list transport" where
  "asking_post =
     (\<lambda>w url p. (Json (PDict [(''message'', PDict [(''content'', PStr []),
                                                   (''tool_calls'', demo_calls)])]),
                 w @ [''chat'']))"

definition answering_post :: "string list transport" where
  "answering_post =
     (\<lambda>w url p. (Json (PDict [(''message'', PDict [(''content'', PStr ''Sunny'')])]),
                 w @ [''chat'']))"

definition failing_post :: "string list transport" where
  "failing_post = (\<lambda>w url p. (ConnectError ''refused'', w @ [''chat'']))"

definition demo_session :: "string list session" where
  "demo_session =
     (\<lambda>w tool_name arguments.
        (if tool_name = PStr ''get_current_weather''
         then Returned [TextContent ''sunny'', TextContent ''ignored'']
         else Raised ''Unknown tool'',
         w @ [py_str tool_name]))"

definition demo_llm :: ollama_client where
  "demo_llm = \<lparr>base_url = ''http://localhost:11434'', model = ''qwen''\<rparr>"

definition demo_self :: "string list transport \<Rightarrow> string list orchestrator" where
  "demo_self post = \<lparr>llm = demo_llm, llm_post = post, mcp = Some demo_session, tools = []\<rparr>"

definition demo_round :: "turn list" where
  "demo_round =
     [assistant_call_turn (PStr []) demo_calls,
      tool_turn (''{'' @ [dquote] @ ''error'' @ [dquote] @ '': '' @ [dquote]
                 @ ''Tool '' @ [squote] @ ''lookup'' @ [squote]
                 @ '' execution failed: Unknown tool'' @ [dquote] @ ''}''),
      tool_turn ''sunny'']"



definition failing_weather :: "(unit, unit) weather_service" where
  "failing_weather = (\<lambda>v city country. (Inl ''City not found'', v))"

definition weather_error_text :: string where
  "weather_error_text =
     ''{'' @ [squote] @ ''error'' @ [squote] @ '': '' @ [squote] @ ''City not found'' @ [squote]
     @ '', '' @ [squote] @ ''city'' @ [squote] @ '': '' @ [squote] @ ''Paris'' @ [squote]
     @ '', '' @ [squote] @ ''country'' @ [squote] @ '': None}''"

text \<open>
  The kinds of failure of a backend call, the kind of an outcome of the transport, and the
  kind that can be read back from the message of the exception \<open>chat\<close> raises.
\<close>

datatype failure_kind = ConnectionFailure | Timeout | MissingModel | BackendError | UnexpectedError

definition kind_of :: "http_outcome \<Rightarrow> failure_kind option" where
  "kind_of outcome =
     (case outcome of
        Json _ \<Rightarrow> None
      | ConnectError _ \<Rightarrow> Some ConnectionFailure
      | TimeoutException _ \<Rightarrow> Some Timeout
      | HTTPStatusError status_code _ \<Rightarrow>
          if status_code = 404 then Some MissingModel else Some BackendError
      | OtherException _ \<Rightarrow> Some UnexpectedError)"

definition message_kind :: "string \<Rightarrow> failure_kind option" where
  "message_kind m =
     (if prefix ''Cannot connect to Ollama at '' m then Some ConnectionFailure
      else if prefix ''Ollama request timed out.'' m then Some Timeout
      else if prefix (''Model '' @ [squote]) m then Some MissingModel
      else if prefix ''Ollama API error: '' m then Some BackendError
      else if prefix ''Unexpected error communicating with Ollama: '' m then Some UnexpectedError
      else None)"

definition unexpected_post :: "unit transport" where
  "unexpected_post = (\<lambda>w url p. (OtherException ''Expecting value'', w))"

section \<open>Tool Registry Adapter: order, fields and the missing-field error\<close>

lemma convert_tool_ok: "has_fields tool \<Longrightarrow> convert_tool tool = Inr (carried tool)"
  by (auto simp: has_fields_def convert_tool_def py_index_def carried_def)

lemma convert_tool_missing:
  "\<not> has_fields tool \<Longrightarrow>
     convert_tool tool = Inl (KeyError ''name'') \<or> convert_tool tool = Inl (KeyError ''description'')
     \<or> convert_tool tool = Inl (KeyError ''inputSchema'')"
  by (auto simp: has_fields_def convert_tool_def py_index_def split: option.splits)

lemma convert_all_ok:
  "list_all has_fields mcp_tools \<Longrightarrow>
     convert_mcp_tools_to_ollama_format mcp_tools = Inr (map carried mcp_tools)"
  by (induction mcp_tools) (simp_all add: convert_tool_ok)

lemma convert_some_missing:
  "\<not> list_all has_fields mcp_tools \<Longrightarrow>
     convert_mcp_tools_to_ollama_format mcp_tools \<in>
       {Inl (KeyError ''name''), Inl (KeyError ''description''), Inl (KeyError ''inputSchema'')}"
proof (induction mcp_tools)
  case Nil
  then show ?case by simp
next
  case (Cons tool mcp_tools)
  show ?case
  proof (cases "has_fields tool")
    case True
    with Cons show ?thesis by (auto simp: convert_tool_ok)
  next
    case False
    from convert_tool_missing [OF this] show ?thesis by auto
  qed
qed

text \<open>
  C8. When every descriptor has name, description and input schema, the adapter returns a
  list of the same length whose i-th entry carries the i-th descriptor's three values, in
  the input order and with repeated descriptors kept; otherwise it raises \<open>KeyError\<close> for one
  of the three fields, and it raises nothing else. The function takes no world: it does no
  I/O.
\<close>

theorem convert_preserves_descriptors:
  "(list_all has_fields mcp_tools \<longrightarrow>
      (\<exists>out. convert_mcp_tools_to_ollama_format mcp_tools = Inr out
         \<and> length out = length mcp_tools
         \<and> (\<forall>i < length mcp_tools. out ! i = carried (mcp_tools ! i))))
   \<and> (\<not> list_all has_fields mcp_tools \<longrightarrow>
      convert_mcp_tools_to_ollama_format mcp_tools \<in>
        {Inl (KeyError ''name''), Inl (KeyError ''description''), Inl (KeyError ''inputSchema'')})"
  using convert_all_ok [of mcp_tools] convert_some_missing [of mcp_tools] by simp

theorem convert_preserves_descriptors_witness:
  "list_all has_fields [tool_a, tool_b, tool_a]
   \<and> convert_mcp_tools_to_ollama_format [tool_a, tool_b, tool_a]
       = Inr [carried tool_a, carried tool_b, carried tool_a]
   \<and> \<not> list_all has_fields [tool_a, [(''name'', PStr ''b'')]]
   \<and> convert_mcp_tools_to_ollama_format [tool_a, [(''name'', PStr ''b'')]]
       = Inl (KeyError ''description'')"
  using convert_preserves_descriptors [of "[tool_a, tool_b, tool_a]"]
    convert_preserves_descriptors [of "[tool_a, [(''name'', PStr ''b'')]]"]
  by (simp add: has_fields_def tool_a_def tool_b_def convert_tool_def py_index_def carried_def)

section \<open>The batch of tool calls\<close>

lemma run_tool_call_request:
  "is_request tool_call \<Longrightarrow>
     run_tool_call session tool_call (w, h) =
       (case call_tool session w (request_name tool_call) (request_arguments tool_call) of
          (r, w') \<Rightarrow> (Inr (), w', h @ [turn_of_outcome r]))"
  by (auto simp: is_request_def run_tool_call_def py_get_def request_name_def
      request_arguments_def request_function_def turn_of_outcome_def is_dict_def
      split: pyval.splits option.splits prod.splits sum.splits)

lemma run_tool_calls_requests:
  "list_all is_request calls \<Longrightarrow>
     run_tool_calls session calls (w, h) =
       (Inr (), snd (outcomes session w calls),
        h @ map turn_of_outcome (fst (outcomes session w calls)))"
proof (induction calls arbitrary: w h)
  case Nil
  then show ?case by simp
next
  case (Cons tool_call rest)
  then show ?case
    by (simp add: run_tool_call_request split: prod.splits)
qed

lemma fst_outcomes_Cons:
  "fst (outcomes session w (tool_call # rest)) =
     fst (call_tool session w (request_name tool_call) (request_arguments tool_call))
     # fst (outcomes session
              (snd (call_tool session w (request_name tool_call) (request_arguments tool_call)))
              rest)"
  by (simp split: prod.splits)

lemma snd_outcomes_Cons:
  "snd (outcomes session w (tool_call # rest)) =
     snd (outcomes session
            (snd (call_tool session w (request_name tool_call) (request_arguments tool_call)))
            rest)"
  by (simp split: prod.splits)

lemma length_outcomes: "length (fst (outcomes session w calls)) = length calls"
  by (induction calls arbitrary: w) (simp_all only: fst_outcomes_Cons, simp_all)

lemma outcomes_nth:
  "i < length calls \<Longrightarrow>
     fst (outcomes session w calls) ! i =
       fst (call_tool session (snd (outcomes session w (take i calls)))
              (request_name (calls ! i)) (request_arguments (calls ! i)))"
proof (induction calls arbitrary: w i)
  case Nil
  then show ?case by simp
next
  case (Cons tool_call rest)
  show ?case
  proof (cases i)
    case 0
    then show ?thesis by (simp only: fst_outcomes_Cons) simp
  next
    case (Suc j)
    with Cons.prems have "j < length rest" by simp
    from Cons.IH [OF this] Suc show ?thesis
      by (simp only: fst_outcomes_Cons take_Suc_Cons snd_outcomes_Cons nth_Cons_Suc)
  qed
qed

lemma role_turn_of_outcome: "role (turn_of_outcome r) = Tool"
  by (simp add: turn_of_outcome_def tool_turn_def split: sum.splits)

lemma run_tool_calls_last_tool:
  "run_tool_calls session calls (w, h) = (Inr u, w', h') \<Longrightarrow> calls \<noteq> [] \<Longrightarrow>
     h' \<noteq> [] \<and> role (last h') = Tool"
proof (induction calls arbitrary: w h)
  case Nil
  then show ?case by simp
next
  case (Cons tool_call rest)
  from Cons.prems(1) obtain w1 h1 where
    one: "run_tool_call session tool_call (w, h) = (Inr (), w1, h1)"
    and more: "run_tool_calls session rest (w1, h1) = (Inr u, w', h')"
    by (auto split: prod.splits sum.splits)
  from one have h1: "h1 \<noteq> [] \<and> role (last h1) = Tool"
    by (auto simp: run_tool_call_def tool_turn_def split: prod.splits sum.splits)
  show ?case
  proof (cases rest)
    case Nil
    with more h1 show ?thesis by simp
  next
    case (Cons a list)
    with Cons.IH [OF more] show ?thesis by simp
  qed
qed

section \<open>The history only grows\<close>

lemma run_tool_call_prefix:
  "run_tool_call session tool_call (w, h) = (r, w', h') \<Longrightarrow> prefix h h'"
  by (auto simp: run_tool_call_def split: prod.splits sum.splits)

lemma run_tool_calls_prefix:
  "run_tool_calls session calls (w, h) = (r, w', h') \<Longrightarrow> prefix h h'"
proof (induction calls arbitrary: w h)
  case Nil
  then show ?case by simp
next
  case (Cons tool_call rest)
  obtain r1 w1 h1 where one: "run_tool_call session tool_call (w, h) = (r1, w1, h1)"
    by (metis prod_cases3)
  from run_tool_call_prefix [OF one] have p1: "prefix h h1" .
  show ?case
  proof (cases r1)
    case (Inl e)
    with Cons.prems one p1 show ?thesis by simp
  next
    case (Inr u)
    with Cons.prems one have "run_tool_calls session rest (w1, h1) = (r, w', h')" by simp
    from Cons.IH [OF this] p1 show ?thesis by (rule prefix_order.trans [rotated])
  qed
qed

lemma inference_pass_Leave_prefix:
  "inference_pass self ollama_tools (w, h) = Leave r (w', h') \<Longrightarrow> prefix h h'"
  by (auto simp: inference_pass_def split: prod.splits sum.splits if_splits
      dest!: run_tool_calls_prefix intro: prefix_order.trans [of h "h @ [x]" for x, rotated])

lemma inference_pass_Again_prefix:
  "inference_pass self ollama_tools (w, h) = Again (w', h') \<Longrightarrow> prefix h h'"
  by (auto simp: inference_pass_def split: prod.splits sum.splits if_splits
      dest!: run_tool_calls_prefix intro: prefix_order.trans [of h "h @ [x]" for x, rotated])

lemma query_loop_prefix:
  "query_loop self ollama_tools iteration (w, h) = (r, n, w', h') \<Longrightarrow> prefix h h'"
proof (induction self ollama_tools iteration "(w, h)" arbitrary: w h
    rule: query_loop.induct)
  case (1 self ollama_tools iteration)
  show ?case
  proof (cases "iteration < max_iterations")
    case False
    with "1.prems" show ?thesis by (simp add: query_loop.simps)
  next
    case True
    show ?thesis
    proof (cases "inference_pass self ollama_tools (w, h)")
      case (Leave r1 s1)
      with True "1.prems" have "s1 = (w', h')" by (simp add: query_loop.simps)
      with Leave show ?thesis by (auto dest: inference_pass_Leave_prefix)
    next
      case (Again s1)
      obtain w1 h1 where s1: "s1 = (w1, h1)" by (cases s1)
      from Again s1 have p: "prefix h h1" by (auto dest: inference_pass_Again_prefix)
      from True Again s1 "1.prems"
      have "query_loop self ollama_tools (iteration + 1) (w1, h1) = (r, n, w', h')"
        by (simp add: query_loop.simps [of self ollama_tools iteration])
      moreover from Again s1 have "inference_pass self ollama_tools (w, h) = Again (w1, h1)"
        by simp
      ultimately have "prefix h1 h'" using "1.hyps" True by blast
      with p show ?thesis by (rule prefix_order.trans)
    qed
  qed
qed

lemma process_query_run:
  "prepare_tools self = Inr ollama_tools \<Longrightarrow>
     process_query self user_input (w, h) =
       (case query_loop self ollama_tools 0 (w, h @ [user_turn user_input]) of
          (r, n, s') \<Rightarrow> (r, s'))"
  by (simp add: process_query_def)

lemma process_query_no_tools:
  "prepare_tools self = Inl e \<Longrightarrow>
     process_query self user_input (w, h) = (Inl e, w, h @ [user_turn user_input])"
  by (simp add: process_query_def)

lemma process_query_extends:
  "process_query self user_input (w, h) = (r, w', h') \<Longrightarrow> prefix (h @ [user_turn user_input]) h'"
  by (cases "prepare_tools self")
    (auto simp: process_query_run process_query_no_tools split: prod.splits
      dest: query_loop_prefix)

text \<open>
  C5. Whatever the outcome of a query (an answer, the apology, an exception), the history
  after it is the history before it, then the query's user turn, then what the rounds
  appended: the earlier history is a strict prefix of the later one.
\<close>

theorem history_append_only:
  assumes "process_query self user_input (w, h) = (r, w', h')"
  shows "strict_prefix h h' \<and> prefix (h @ [user_turn user_input]) h'"
proof -
  from assms have p: "prefix (h @ [user_turn user_input]) h'" by (rule process_query_extends)
  then obtain ts where "h' = (h @ [user_turn user_input]) @ ts" by (auto simp: prefix_def)
  then have "strict_prefix h h'" by (simp add: strict_prefix_def)
  with p show ?thesis by simp
qed

section \<open>One round of tool calls\<close>

lemma inference_pass_batch:
  assumes "chat (llm_post self) (llm self) w h ollama_tools = (Inr (PDict resp), w1)"
    and "map_of resp ''message'' = Some (PDict message)"
    and "map_of message ''tool_calls'' = Some (PList calls)"
    and "calls \<noteq> []"
    and "list_all is_request calls"
  shows "inference_pass self ollama_tools (w, h) =
           Again (snd (outcomes (mcp self) w1 calls),
                  h @ [assistant_call_turn
                         (case map_of message ''content'' of Some c \<Rightarrow> c | None \<Rightarrow> PStr [])
                         (PList calls)]
                    @ map turn_of_outcome (fst (outcomes (mcp self) w1 calls)))"
  using assms
  by (simp add: inference_pass_def py_get_def truthy_def py_len_def py_iter_def
      run_tool_calls_requests)

text \<open>
  C1. When the backend's answer carries a batch of k well-formed tool-call requests, the
  pass appends the assistant turn and then exactly k tool turns; the i-th of them records
  the outcome, success or failure, of the i-th request, invoked in the world that the
  requests before it left; and the loop goes round again.
\<close>

theorem dispatch_in_request_order:
  assumes "chat (llm_post self) (llm self) w h ollama_tools = (Inr (PDict resp), w1)"
    and "map_of resp ''message'' = Some (PDict message)"
    and "map_of message ''tool_calls'' = Some (PList calls)"
    and "calls \<noteq> []"
    and "list_all is_request calls"
  shows "\<exists>ts. inference_pass self ollama_tools (w, h) =
             Again (snd (outcomes (mcp self) w1 calls),
                    h @ [assistant_call_turn
                           (case map_of message ''content'' of Some c \<Rightarrow> c | None \<Rightarrow> PStr [])
                           (PList calls)] @ ts)
           \<and> length ts = length calls
           \<and> (\<forall>i < length calls.
                 role (ts ! i) = Tool
                 \<and> ts ! i = turn_of_outcome
                     (fst (call_tool (mcp self) (snd (outcomes (mcp self) w1 (take i calls)))
                             (request_name (calls ! i)) (request_arguments (calls ! i)))))"
proof (intro exI conjI allI impI)
  show "inference_pass self ollama_tools (w, h) =
          Again (snd (outcomes (mcp self) w1 calls),
                 h @ [assistant_call_turn
                        (case map_of message ''content'' of Some c \<Rightarrow> c | None \<Rightarrow> PStr [])
                        (PList calls)]
                   @ map turn_of_outcome (fst (outcomes (mcp self) w1 calls)))"
    using assms by (rule inference_pass_batch)
  show "length (map turn_of_outcome (fst (outcomes (mcp self) w1 calls))) = length calls"
    by (simp add: length_outcomes)
  fix i
  assume i: "i < length calls"
  then show "role (map turn_of_outcome (fst (outcomes (mcp self) w1 calls)) ! i) = Tool"
    by (simp add: length_outcomes role_turn_of_outcome)
  from i show "map turn_of_outcome (fst (outcomes (mcp self) w1 calls)) ! i =
      turn_of_outcome
        (fst (call_tool (mcp self) (snd (outcomes (mcp self) w1 (take i calls)))
                (request_name (calls ! i)) (request_arguments (calls ! i))))"
    by (simp add: length_outcomes outcomes_nth)
qed

lemma demo_chat:
  "chat asking_post demo_llm w h None =
     (Inr (PDict [(''message'', PDict [(''content'', PStr []), (''tool_calls'', demo_calls)])]),
      w @ [''chat''])"
  by (simp add: chat_def asking_post_def)

lemma demo_requests: "list_all is_request (case demo_calls of PList xs \<Rightarrow> xs)"
  by (simp add: demo_calls_def is_request_def is_dict_def)

lemma demo_lookup_fails:
  "call_tool (Some demo_session) w (PStr ''lookup'') a =
     (Inl (RuntimeError (''Tool '' @ [squote] @ ''lookup'' @ [squote]
                         @ '' execution failed: Unknown tool'')), w @ [''lookup''])"
  by (simp add: call_tool_def demo_session_def py_str_def)

lemma json_loads_sunny: "json_loads ''sunny'' = None"
  by (simp add: json_loads_def ws_def scan_number_def scan_sign_def scan_int_part_def digit_def)

lemma demo_weather_ok:
  "call_tool (Some demo_session) w (PStr ''get_current_weather'') a =
     (Inr (PStr ''sunny''), w @ [''get_current_weather''])"
  by (simp add: call_tool_def demo_session_def py_str_def extract_content_def json_loads_sunny)

lemma demo_pass:
  "inference_pass (demo_self asking_post) None (w, h) =
     Again (w @ [''chat'', ''lookup'', ''get_current_weather''], h @ demo_round)"
  by (simp add: inference_pass_def demo_self_def demo_chat py_get_def demo_calls_def truthy_def
      py_len_def py_iter_def run_tool_call_def demo_lookup_fails demo_weather_ok demo_round_def
      result_content_def error_content_def is_dict_def py_str_def str_exn_def json_string_def
      json_escape_char_def)

theorem dispatch_in_request_order_witness:
  "inference_pass (demo_self asking_post) None ([], [user_turn ''hi'']) =
     Again ([''chat'', ''lookup'', ''get_current_weather''], user_turn ''hi'' # demo_round)
   \<and> length (tl demo_round) = 2 \<and> role (demo_round ! 1) = Tool \<and> role (demo_round ! 2) = Tool"
proof -
  let ?calls = "case demo_calls of PList xs \<Rightarrow> xs"
  have c: "chat (llm_post (demo_self asking_post)) (llm (demo_self asking_post)) []
             [user_turn ''hi''] None =
           (Inr (PDict [(''message'', PDict [(''content'', PStr []), (''tool_calls'', demo_calls)])]),
            [''chat''])"
    using demo_chat [of "[]"] by (simp add: demo_self_def)
  have m: "map_of [(''message'', PDict [(''content'', PStr []), (''tool_calls'', demo_calls)])]
             ''message'' = Some (PDict [(''content'', PStr []), (''tool_calls'', demo_calls)])"
    by simp
  have t: "map_of [(''content'', PStr []), (''tool_calls'', demo_calls)] ''tool_calls''
             = Some (PList ?calls)"
    by (simp add: demo_calls_def)
  have n: "?calls \<noteq> []" by (simp add: demo_calls_def)
  from dispatch_in_request_order [OF c m t n demo_requests] demo_pass [of "[]" "[user_turn ''hi'']"]
  show ?thesis
    by (simp add: demo_round_def tool_turn_def)
qed

section \<open>The iteration cap\<close>

lemma query_loop_at_cap:
  "query_loop self ollama_tools max_iterations s = (Inr (PStr apology), max_iterations, s)"
  by (simp add: query_loop.simps)

lemma query_loop_Leave:
  "iteration < max_iterations \<Longrightarrow> inference_pass self ollama_tools s = Leave r s' \<Longrightarrow>
     query_loop self ollama_tools iteration s = (r, iteration + 1, s')"
  by (simp add: query_loop.simps)

lemma query_loop_Again:
  "iteration < max_iterations \<Longrightarrow> inference_pass self ollama_tools s = Again s' \<Longrightarrow>
     query_loop self ollama_tools iteration s = query_loop self ollama_tools (iteration + 1) s'"
  by (simp add: query_loop.simps)

lemma query_loop_bounds:
  "query_loop self ollama_tools iteration s = (r, n, s') \<Longrightarrow>
     iteration \<le> n \<and> (iteration < max_iterations \<longrightarrow> iteration < n)
     \<and> (iteration \<le> max_iterations \<longrightarrow> n \<le> max_iterations)"
proof (induction self ollama_tools iteration s rule: query_loop.induct)
  case (1 self ollama_tools iteration s)
  show ?case
  proof (cases "iteration < max_iterations")
    case False
    with "1.prems" show ?thesis by (simp add: query_loop.simps)
  next
    case True
    show ?thesis
    proof (cases "inference_pass self ollama_tools s")
      case (Leave r1 s1)
      with True "1.prems" show ?thesis by (auto simp: query_loop_Leave)
    next
      case (Again s1)
      with True "1.prems"
      have "query_loop self ollama_tools (iteration + 1) s1 = (r, n, s')"
        by (simp add: query_loop_Again)
      from "1.IH" [OF True Again this] True show ?thesis by auto
    qed
  qed
qed

lemma query_loop_passes:
  "passes self ollama_tools k s = Some s' \<Longrightarrow> iteration + k \<le> max_iterations \<Longrightarrow>
     query_loop self ollama_tools iteration s = query_loop self ollama_tools (iteration + k) s'"
proof (induction k arbitrary: iteration s)
  case 0
  then show ?case by simp
next
  case (Suc k)
  from Suc.prems(1) obtain s1 where a: "inference_pass self ollama_tools s = Again s1"
    and rest: "passes self ollama_tools k s1 = Some s'"
    by (auto split: pass.splits)
  from Suc.prems(2) have "iteration < max_iterations" and "(iteration + 1) + k \<le> max_iterations"
    by simp_all
  with a Suc.IH [OF rest] show ?case by (simp add: query_loop_Again)
qed

lemma passes_Suc_right:
  "passes self ollama_tools (Suc k) s =
     (case passes self ollama_tools k s of
        None \<Rightarrow> None
      | Some s1 \<Rightarrow> (case inference_pass self ollama_tools s1 of
                     Again s' \<Rightarrow> Some s' | Leave _ _ \<Rightarrow> None))"
proof (induction k arbitrary: s)
  case 0
  show ?case by (simp split: pass.splits)
next
  case (Suc k)
  show ?case
  proof (cases "inference_pass self ollama_tools s")
    case (Leave r s1)
    then show ?thesis by simp
  next
    case (Again s1)
    with Suc [of s1] show ?thesis by simp
  qed
qed

lemma passes_prefix:
  "passes self ollama_tools k (w, h) = Some (w', h') \<Longrightarrow> prefix h h'"
proof (induction k arbitrary: w h)
  case 0
  then show ?case by simp
next
  case (Suc k)
  from Suc.prems obtain w1 h1 where a: "inference_pass self ollama_tools (w, h) = Again (w1, h1)"
    and rest: "passes self ollama_tools k (w1, h1) = Some (w', h')"
    by (auto split: pass.splits)
  from inference_pass_Again_prefix [OF a] Suc.IH [OF rest] show ?case
    by (rule prefix_order.trans)
qed

lemma py_iter_nonempty: "truthy calls \<Longrightarrow> py_len calls = Inr n \<Longrightarrow> py_iter calls \<noteq> []"
  by (cases calls) (simp_all add: truthy_def py_len_def py_iter_def)

lemma inference_pass_Again_last_tool:
  assumes "inference_pass self ollama_tools (w, h) = Again (w', h')"
  shows "h' \<noteq> [] \<and> role (last h') = Tool"
proof -
  from assms obtain calls n u w1 h1 where t: "truthy calls" and l: "py_len calls = Inr n"
    and r: "run_tool_calls (mcp self) (py_iter calls) (w1, h1) = (Inr u, w', h')"
    by (auto simp: inference_pass_def split: prod.splits sum.splits if_splits)
  from run_tool_calls_last_tool [OF r py_iter_nonempty [OF t l]] show ?thesis .
qed

lemma passes_last_tool:
  assumes "passes self ollama_tools (Suc k) s = Some (w', h')"
  shows "h' \<noteq> [] \<and> role (last h') = Tool"
proof -
  from assms obtain w1 h1 where "inference_pass self ollama_tools (w1, h1) = Again (w', h')"
    by (auto simp: passes_Suc_right simp del: passes.simps split: option.splits pass.splits)
  then show ?thesis by (rule inference_pass_Again_last_tool)
qed

section \<open>Counting the backend calls\<close>

lemma chat_counting:
  "chat (counting post) client (c, w) messages ts =
     (case chat post client w messages ts of (r, w') \<Rightarrow> (r, (Suc c, w')))"
  by (simp add: chat_def counting_def split: prod.splits http_outcome.splits)

lemma call_tool_uncounted:
  "call_tool (map_option uncounted session) (c, w) tool_name arguments =
     (case call_tool session w tool_name arguments of (r, w') \<Rightarrow> (r, (c, w')))"
  by (cases session) (simp_all add: call_tool_def uncounted_def split: prod.splits call_outcome.splits)

lemma run_tool_call_uncounted:
  "run_tool_call (map_option uncounted session) tool_call ((c, w), h) =
     (case run_tool_call session tool_call (w, h) of (r, w', h') \<Rightarrow> (r, (c, w'), h'))"
  by (simp add: run_tool_call_def call_tool_uncounted split: prod.splits sum.splits)

lemma run_tool_calls_uncounted:
  "run_tool_calls (map_option uncounted session) calls ((c, w), h) =
     (case run_tool_calls session calls (w, h) of (r, w', h') \<Rightarrow> (r, (c, w'), h'))"
proof (induction calls arbitrary: w h)
  case Nil
  show ?case by simp
next
  case (Cons tool_call rest)
  show ?case
    by (simp add: run_tool_call_uncounted Cons split: prod.splits sum.splits)
qed

lemma inference_pass_counted:
  "inference_pass (counted self) ollama_tools ((c, w), h) =
     (case inference_pass self ollama_tools (w, h) of
        Leave r (w', h') \<Rightarrow> Leave r ((Suc c, w'), h')
      | Again (w', h') \<Rightarrow> Again ((Suc c, w'), h'))"
  by (simp add: inference_pass_def counted_def chat_counting run_tool_calls_uncounted
      split: prod.splits sum.splits)

lemma query_loop_counted:
  "query_loop self ollama_tools iteration (w, h) = (r, n, w', h') \<Longrightarrow>
     query_loop (counted self) ollama_tools iteration ((c, w), h)
       = (r, n, (c + (n - iteration), w'), h')"
proof (induction self ollama_tools iteration "(w, h)" arbitrary: w h c
    rule: query_loop.induct)
  case (1 self ollama_tools iteration)
  show ?case
  proof (cases "iteration < max_iterations")
    case False
    with "1.prems" show ?thesis by (simp add: query_loop.simps)
  next
    case True
    show ?thesis
    proof (cases "inference_pass self ollama_tools (w, h)")
      case (Leave r1 s1)
      obtain w1 h1 where s1: "s1 = (w1, h1)" by (cases s1)
      from Leave s1 have "inference_pass (counted self) ollama_tools ((c, w), h)
          = Leave r1 ((Suc c, w1), h1)"
        by (simp add: inference_pass_counted)
      with True Leave s1 "1.prems" show ?thesis by (auto simp: query_loop_Leave)
    next
      case (Again s1)
      obtain w1 h1 where s1: "s1 = (w1, h1)" by (cases s1)
      from Again s1 have a: "inference_pass self ollama_tools (w, h) = Again (w1, h1)" by simp
      then have ac: "inference_pass (counted self) ollama_tools ((c, w), h)
          = Again ((Suc c, w1), h1)"
        by (simp add: inference_pass_counted)
      from True a "1.prems"
      have next_run: "query_loop self ollama_tools (iteration + 1) (w1, h1) = (r, n, w', h')"
        by (simp add: query_loop_Again)
      from query_loop_bounds [OF next_run] have "iteration + 1 \<le> n" by simp
      moreover from "1.hyps" True a next_run
      have "query_loop (counted self) ollama_tools (iteration + 1) ((Suc c, w1), h1)
          = (r, n, (Suc c + (n - (iteration + 1)), w'), h')"
        by blast
      ultimately show ?thesis using True ac by (simp add: query_loop_Again)
    qed
  qed
qed

lemma tools_counted: "tools (counted self) = tools self"
  by (simp add: counted_def)

lemma prepare_tools_counted: "prepare_tools (counted self) = prepare_tools self"
  by (simp add: prepare_tools_def tools_counted)

section \<open>Runs of the concrete setting\<close>

lemma prepare_demo: "prepare_tools (demo_self post) = Inr None"
  by (simp add: prepare_tools_def demo_self_def)

lemma answering_pass:
  "inference_pass (demo_self answering_post) None (w, h) =
     Leave (Inr (PStr ''Sunny'')) (w @ [''chat''], h @ [assistant_turn (PStr ''Sunny'')])"
  by (simp add: inference_pass_def demo_self_def chat_def answering_post_def py_get_def truthy_def)

lemma failing_chat:
  "chat failing_post demo_llm w h None =
     (Inl (RuntimeError (''Cannot connect to Ollama at http://localhost:11434.'' @ [newline]
                         @ ''Please ensure Ollama is running:'' @ [newline]
                         @ ''  ollama serve'')), w @ [''chat''])"
  by (simp add: chat_def failing_post_def demo_llm_def)

lemma answering_query:
  "process_query (demo_self answering_post) q (w, h) =
     (Inr (PStr ''Sunny''), w @ [''chat''], h @ [user_turn q, assistant_turn (PStr ''Sunny'')])"
  by (simp add: process_query_run [OF prepare_demo] query_loop_Leave [OF _ answering_pass]
      max_iterations_def)

lemma asking_passes:
  "passes (demo_self asking_post) None 5 (w, h) =
     Some (w @ concat (replicate 5 [''chat'', ''lookup'', ''get_current_weather'']),
           h @ concat (replicate 5 demo_round))"
  by (simp add: eval_nat_numeral demo_pass)

theorem history_append_only_witness:
  "process_query (demo_self answering_post) ''hi'' ([], [user_turn ''earlier'']) =
     (Inr (PStr ''Sunny''), [''chat''],
      [user_turn ''earlier'', user_turn ''hi'', assistant_turn (PStr ''Sunny'')])
   \<and> strict_prefix [user_turn ''earlier'']
       [user_turn ''earlier'', user_turn ''hi'', assistant_turn (PStr ''Sunny'')]"
  using history_append_only [OF answering_query [of "''hi''" "[]" "[user_turn ''earlier'']"]]
    answering_query [of "''hi''" "[]" "[user_turn ''earlier'']"]
  by simp

section \<open>At most five inference calls\<close>

text \<open>
  C2. Run a query with a counter of backend calls in the world. The counter ends at most
  5 above where it started, and the counter changes nothing else in the run. If each of
  the five passes asked for tools, the query returns the apology, and its final state is
  the state the fifth batch left: the last turn of the history is a tool turn, nothing was
  appended after it and no sixth call was made.
\<close>

theorem iteration_cap:
  assumes "process_query (counted self) user_input ((c, w), h) = (r, (c', w'), h')"
  shows "c' \<le> c + 5
       \<and> process_query self user_input (w, h) = (r, w', h')
       \<and> (\<forall>ollama_tools.
             prepare_tools self = Inr ollama_tools
             \<and> passes self ollama_tools 5 (w, h @ [user_turn user_input]) \<noteq> None
             \<longrightarrow> r = Inr (PStr apology) \<and> c' = c + 5
                 \<and> passes self ollama_tools 5 (w, h @ [user_turn user_input]) = Some (w', h')
                 \<and> h' \<noteq> [] \<and> role (last h') = Tool)"
proof (cases "prepare_tools self")
  case (Inl e)
  then have "prepare_tools (counted self) = Inl e"
    by (simp add: prepare_tools_counted)
  with assms Inl show ?thesis by (simp add: process_query_no_tools)
next
  case (Inr t)
  then have pc: "prepare_tools (counted self) = Inr t"
    by (simp add: prepare_tools_counted)
  obtain r0 n w0 h0 where
    run: "query_loop self t 0 (w, h @ [user_turn user_input]) = (r0, n, w0, h0)"
    by (metis prod_cases4)
  from query_loop_counted [OF run, of c] assms
  have eq: "r = r0" "c' = c + n" "w' = w0" "h' = h0"
    by (simp_all add: process_query_run [OF pc])
  from query_loop_bounds [OF run] have n: "n \<le> 5" by (simp add: max_iterations_def)
  have plain: "process_query self user_input (w, h) = (r, w', h')"
    using run eq by (simp add: process_query_run [OF Inr])
  have exhausted: "r = Inr (PStr apology) \<and> c' = c + 5
      \<and> passes self t 5 (w, h @ [user_turn user_input]) = Some (w', h')
      \<and> h' \<noteq> [] \<and> role (last h') = Tool"
    if "passes self t 5 (w, h @ [user_turn user_input]) \<noteq> None"
  proof -
    from that obtain w5 h5 where
      p: "passes self t 5 (w, h @ [user_turn user_input]) = Some (w5, h5)"
      by auto
    from query_loop_passes [OF p, of 0]
    have "query_loop self t 0 (w, h @ [user_turn user_input])
        = (Inr (PStr apology), 5, w5, h5)"
      using query_loop_at_cap [of self t "(w5, h5)"] by (simp add: max_iterations_def)
    with run eq have "r = Inr (PStr apology)" "n = 5" "w' = w5" "h' = h5" by simp_all
    moreover from p have "h5 \<noteq> [] \<and> role (last h5) = Tool"
      using passes_last_tool [of self t 4 "(w, h @ [user_turn user_input])" w5 h5]
      by (simp add: eval_nat_numeral)
    ultimately show ?thesis using p eq by simp
  qed
  from n eq plain exhausted Inr show ?thesis by auto
qed

lemma asking_counted_query:
  "process_query (counted (demo_self asking_post)) ''hi'' ((0, []), []) =
     (Inr (PStr apology),
      (5, concat (replicate 5 [''chat'', ''lookup'', ''get_current_weather''])),
      user_turn ''hi'' # concat (replicate 5 demo_round))"
proof -
  have p: "passes (demo_self asking_post) None 5 ([], [user_turn ''hi'']) =
      Some (concat (replicate 5 [''chat'', ''lookup'', ''get_current_weather'']),
            user_turn ''hi'' # concat (replicate 5 demo_round))"
    using asking_passes [of "[]" "[user_turn ''hi'']"] by simp
  from query_loop_passes [OF p, of 0]
  have run: "query_loop (demo_self asking_post) None 0 ([], [] @ [user_turn ''hi'']) =
      (Inr (PStr apology), 5,
       concat (replicate 5 [''chat'', ''lookup'', ''get_current_weather'']),
       user_turn ''hi'' # concat (replicate 5 demo_round))"
    using query_loop_at_cap [of "demo_self asking_post" None] by (simp add: max_iterations_def)
  have pc: "prepare_tools (counted (demo_self asking_post)) = Inr None"
    by (simp add: prepare_tools_counted prepare_demo)
  from query_loop_counted [OF run, of 0] show ?thesis
    by (simp add: process_query_run [OF pc])
qed

theorem iteration_cap_witness:
  "process_query (demo_self asking_post) ''hi'' ([], []) =
     (Inr (PStr apology),
      concat (replicate 5 [''chat'', ''lookup'', ''get_current_weather'']),
      user_turn ''hi'' # concat (replicate 5 demo_round))
   \<and> prepare_tools (demo_self asking_post) = Inr None
   \<and> passes (demo_self asking_post) None 5 ([], [] @ [user_turn ''hi'']) \<noteq> None
   \<and> role (last (user_turn ''hi'' # concat (replicate 5 demo_round))) = Tool"
  using iteration_cap [OF asking_counted_query] asking_passes [of "[]" "[user_turn ''hi'']"]
    prepare_demo [of asking_post]
  by simp

section \<open>A failing backend call\<close>

text \<open>
  C6. If, after k rounds of tool calls (k below the cap), the backend call fails, the
  query raises at once: \<open>process_query\<close> ends with \<open>RuntimeError\<close>, and the history is
  exactly the one that was sent with the failing call, which holds the earlier history, the
  query's user turn and the turns of the k rounds, and no turn for the failed call. The
  caller prints the error and keeps the state, and the next query starts its loop from that
  history plus its own user turn.
\<close>

theorem backend_failure_keeps_history:
  assumes "prepare_tools self = Inr ollama_tools"
    and "k < max_iterations"
    and "passes self ollama_tools k (w, h @ [user_turn user_input]) = Some (wk, hk)"
    and "chat (llm_post self) (llm self) wk hk ollama_tools = (Inl e, w1)"
  shows "process_query self user_input (w, h) = (Inl (RuntimeError could_not_connect), w1, hk)
       \<and> prefix (h @ [user_turn user_input]) hk
       \<and> main_query self user_input (w, h)
           = ([newline] @ ''Error: '' @ could_not_connect @ [newline], w1, hk)
       \<and> process_query self retry (w1, hk)
           = (case query_loop self ollama_tools 0 (w1, hk @ [user_turn retry]) of
                (r, n, s') \<Rightarrow> (r, s'))"
proof -
  from assms(4) have leave: "inference_pass self ollama_tools (wk, hk)
      = Leave (Inl (RuntimeError could_not_connect)) (w1, hk)"
    by (simp add: inference_pass_def)
  from assms(2) have "0 + k \<le> max_iterations" by simp
  from query_loop_passes [OF assms(3) this]
  have "query_loop self ollama_tools 0 (w, h @ [user_turn user_input])
      = (Inl (RuntimeError could_not_connect), k + 1, w1, hk)"
    using query_loop_Leave [OF assms(2) leave] by simp
  then have q: "process_query self user_input (w, h)
      = (Inl (RuntimeError could_not_connect), w1, hk)"
    by (simp add: process_query_run [OF assms(1)])
  from passes_prefix [OF assms(3)] q show ?thesis
    by (simp add: main_query_def str_exn_def process_query_run [OF assms(1)])
qed

theorem backend_failure_keeps_history_witness:
  "process_query (demo_self failing_post) ''hi'' ([], [user_turn ''earlier''])
     = (Inl (RuntimeError could_not_connect), [''chat''], [user_turn ''earlier'', user_turn ''hi''])
   \<and> (0::nat) < max_iterations
   \<and> passes (demo_self failing_post) None 0 ([], [user_turn ''earlier''] @ [user_turn ''hi''])
       = Some ([], [user_turn ''earlier'', user_turn ''hi''])"
proof -
  have k: "(0::nat) < max_iterations" by (simp add: max_iterations_def)
  have p: "passes (demo_self failing_post) None 0 ([], [user_turn ''earlier''] @ [user_turn ''hi''])
      = Some ([], [user_turn ''earlier'', user_turn ''hi''])"
    by simp
  have c: "chat (llm_post (demo_self failing_post)) (llm (demo_self failing_post)) []
      [user_turn ''earlier'', user_turn ''hi''] None
      = (Inl (RuntimeError (''Cannot connect to Ollama at http://localhost:11434.'' @ [newline]
                         @ ''Please ensure Ollama is running:'' @ [newline]
                         @ ''  ollama serve'')), [] @ [''chat''])"
    using failing_chat [of "[]"] by (simp add: demo_self_def)
  from backend_failure_keeps_history [OF prepare_demo k p c] k p show ?thesis by simp
qed

section \<open>Writing and reading back a JSON string\<close>

lemma hexval_hexdigit_all: "\<forall>k \<in> set [0..<16]. hexval (hexdigit k) = Some k"
  by (simp add: upt_rec hexval_def hexdigit_def)

lemma hexval_hexdigit: "k < 16 \<Longrightarrow> hexval (hexdigit k) = Some k"
  using hexval_hexdigit_all by simp

lemma hex4_escape:
  "hex4 (CHR ''0'') (CHR ''0'') (hexdigit (of_char c div 16)) (hexdigit (of_char c mod 16))
     = Some (of_char c)"
proof -
  have "of_char c < (256::nat)" by simp
  then have a: "of_char c div 16 < (16::nat)" by presburger
  have b: "of_char c mod 16 < (16::nat)" by simp
  show ?thesis
    by (simp add: hex4_def hexval_hexdigit [OF a] hexval_hexdigit [OF b]) (simp add: hexval_def)
qed

lemma scan_string_escape_char:
  "scan_string (json_escape_char c @ t) = with_char c (scan_string t)"
proof -
  consider (special) "c \<in> {dquote, backslash, CHR 0x0A, CHR 0x0D, CHR 0x09, CHR 0x08, CHR 0x0C}"
    | (hex) "c \<notin> {dquote, backslash, CHR 0x0A, CHR 0x0D, CHR 0x09, CHR 0x08, CHR 0x0C}"
        "of_char c < (32::nat) \<or> (126::nat) < of_char c"
    | (plain) "c \<noteq> dquote" "c \<noteq> backslash" "\<not> of_char c < (32::nat)" "\<not> (126::nat) < of_char c"
    by auto
  then show ?thesis
  proof cases
    case special
    then show ?thesis by (auto simp: json_escape_char_def unescape_def)
  next
    case hex
    then show ?thesis
      by (simp add: json_escape_char_def hex4_escape)
  next
    case plain
    then show ?thesis by (auto simp: json_escape_char_def)
  qed
qed

lemma scan_string_json_escape:
  "scan_string (concat (map json_escape_char m) @ dquote # rest) = Some (m, rest)"
  by (induction m) (simp_all add: scan_string_escape_char with_char_def)

lemma json_loads_error_object:
  "json_loads (json_dumps (PDict [(''error'', PStr m)])) = Some (PDict [(''error'', PStr m)])"
proof -
  have key: "scan_string (''error'' @ dquote # t) = Some (''error'', t)" for t
    by (simp add: with_char_def)
  have "lex (json_dumps (PDict [(''error'', PStr m)]))
      = Some [LBrace, Scalar (PStr ''error''), Colon, Scalar (PStr m), RBrace]"
    using key [of "'': '' @ dquote # concat (map json_escape_char m) @ [dquote] @ ''}''"]
      scan_string_json_escape [of m "''}''"]
    by (simp add: json_string_def json_escape_char_def ws_def with_token_def)
  then show ?thesis
    by (simp add: json_loads_def parse_step_def start_value_def read_key_def accept_value_def
        close_object_def)
qed

lemma json_loads_single_quoted: "json_loads (CHR ''{'' # squote # rest) = None"
  by (simp add: json_loads_def ws_def with_token_def scan_number_def scan_sign_def
      scan_int_part_def digit_def)




section \<open>Tool Executor: what \<open>call_tool\<close> returns\<close>







section \<open>A failing tool call\<close>

text \<open>
  C3 as the spec states it fails at the executor: \<open>call_tool\<close> re-raises the provider's
  failure as a \<open>RuntimeError\<close>; it returns no error object.
\<close>

theorem executor_raises_counterexample:
  "call_tool (Some demo_session) [] (PStr ''lookup'') (PDict [])
     = (Inl (RuntimeError (''Tool '' @ [squote] @ ''lookup'' @ [squote]
                           @ '' execution failed: Unknown tool'')), [''lookup''])"
  using demo_lookup_fails [of "[]" "PDict []"] by simp

text \<open>
  C3, amended. When the invocation of a request fails, \<open>call_tool\<close> raises
  \<open>RuntimeError\<close> (\<open>MCP client not connected\<close> without a session, otherwise
  \<open>Tool '<name>' execution failed: <e>\<close>); the loop catches it and appends one tool
  turn whose content is JSON that reads back as the object with the single key \<open>error\<close>
  and that message; and a batch of well-formed requests never ends in an exception.
\<close>

theorem tool_failure_becomes_turn:
  assumes "is_request tool_call"
    and "call_tool session w (request_name tool_call) (request_arguments tool_call) = (Inl e, w')"
  shows "run_tool_call session tool_call (w, h) = (Inr (), w', h @ [tool_turn (error_content e)])
       \<and> json_loads (error_content e) = Some (PDict [(''error'', PStr (str_exn e))])
       \<and> (session = None \<longrightarrow> e = RuntimeError ''MCP client not connected'')
       \<and> (\<forall>f raised.
             session = Some f
             \<and> fst (f w (request_name tool_call) (request_arguments tool_call)) = Raised raised
             \<longrightarrow> e = RuntimeError (''Tool '' @ [squote] @ py_str (request_name tool_call) @ [squote]
                                    @ '' execution failed: '' @ raised))
       \<and> (\<forall>calls s. list_all is_request calls \<longrightarrow> fst (run_tool_calls session calls s) = Inr ())"
proof (intro conjI allI impI)
  show "run_tool_call session tool_call (w, h) = (Inr (), w', h @ [tool_turn (error_content e)])"
    using assms by (simp add: run_tool_call_request turn_of_outcome_def)
  show "json_loads (error_content e) = Some (PDict [(''error'', PStr (str_exn e))])"
    unfolding error_content_def by (rule json_loads_error_object)
  show "e = RuntimeError ''MCP client not connected''" if "session = None"
    using that assms(2) by (simp add: call_tool_def)
  show "e = RuntimeError (''Tool '' @ [squote] @ py_str (request_name tool_call) @ [squote]
                          @ '' execution failed: '' @ raised)"
    if "session = Some f
        \<and> fst (f w (request_name tool_call) (request_arguments tool_call)) = Raised raised"
    for f raised
    using that assms(2) by (auto simp: call_tool_def split: prod.splits call_outcome.splits)
  show "fst (run_tool_calls session calls s) = Inr ()" if "list_all is_request calls" for calls s
    using that by (cases s) (simp add: run_tool_calls_requests)
qed

theorem tool_failure_becomes_turn_witness:
  "is_request (PDict [(''function'', PDict [(''name'', PStr ''lookup''), (''arguments'', PDict [])])])
   \<and> call_tool (Some demo_session) [] (PStr ''lookup'') (PDict [])
     = (Inl (RuntimeError (''Tool '' @ [squote] @ ''lookup'' @ [squote]
                           @ '' execution failed: Unknown tool'')), [''lookup''])
   \<and> run_tool_call (Some demo_session)
       (PDict [(''function'', PDict [(''name'', PStr ''lookup''), (''arguments'', PDict [])])])
       ([], [])
     = (Inr (), [''lookup''], [demo_round ! 1])
   \<and> json_loads (error_content (RuntimeError (''Tool '' @ [squote] @ ''lookup'' @ [squote]
                                               @ '' execution failed: Unknown tool'')))
     = Some (PDict [(''error'', PStr (''Tool '' @ [squote] @ ''lookup'' @ [squote]
                                      @ '' execution failed: Unknown tool''))])"
proof -
  let ?call = "PDict [(''function'', PDict [(''name'', PStr ''lookup''), (''arguments'', PDict [])])]"
  let ?e = "RuntimeError (''Tool '' @ [squote] @ ''lookup'' @ [squote]
                          @ '' execution failed: Unknown tool'')"
  have r: "is_request ?call" by (simp add: is_request_def is_dict_def)
  have n: "request_name ?call = PStr ''lookup''" "request_arguments ?call = PDict []"
    by (simp_all add: request_name_def request_arguments_def request_function_def)
  have c: "call_tool (Some demo_session) [] (request_name ?call) (request_arguments ?call)
      = (Inl ?e, [''lookup''])"
    using demo_lookup_fails [of "[]" "PDict []"] by (simp add: n)
  have t: "tool_turn (error_content ?e) = demo_round ! 1"
    by (simp add: demo_round_def error_content_def str_exn_def json_string_def
        json_escape_char_def)
  have s: "str_exn ?e = ''Tool '' @ [squote] @ ''lookup'' @ [squote]
      @ '' execution failed: Unknown tool''"
    by (simp add: str_exn_def)
  from tool_failure_becomes_turn [OF r c, of "[]"]
  have "run_tool_call (Some demo_session) ?call ([], []) = (Inr (), [''lookup''], [demo_round ! 1])"
    and "json_loads (error_content ?e) = Some (PDict [(''error'', PStr (str_exn ?e))])"
    by (simp_all only: t append_Nil)
  with r c n s show ?thesis by (simp only:)
qed

section \<open>The weather handler's error text\<close>

lemma error_response_text:
  "\<exists>rest. py_str (PDict [(''error'', PStr e), (''city'', city), (''country'', country)])
     = CHR ''{'' # squote # ''error'' @ squote # '': '' @ rest"
  by (simp add: py_str_def repr_str_def repr_quote_def repr_char_def Let_def)

text \<open>
  C10. When the weather service raises, the handler returns, as an ordinary result, one
  text item: Python's \<open>str\<close> of the dict with \<open>error\<close>, \<open>city\<close> and \<open>country\<close>.
  The text begins \<open>{'error': \<close> with single quotes, so it is not valid JSON, and the
  client's normalization returns the text itself, which is also the content of the tool turn.
\<close>

theorem weather_error_is_raw_text:
  assumes "get_current_weather v city country = (Inl e, v')"
  shows "\<exists>text. handle_get_current_weather model_dump_json get_current_weather v city country
               = ([TextContent text], v')
           \<and> text = py_str (PDict [(''error'', PStr e), (''city'', city), (''country'', country)])
           \<and> take 10 text = ''{'' @ [squote] @ ''error'' @ [squote] @ '': ''
           \<and> json_loads text = None
           \<and> extract_content [TextContent text] = PStr text
           \<and> result_content (extract_content [TextContent text]) = text"
proof -
  obtain rest where
    t: "py_str (PDict [(''error'', PStr e), (''city'', city), (''country'', country)])
         = CHR ''{'' # squote # ''error'' @ squote # '': '' @ rest"
    using error_response_text by blast
  then have j: "json_loads (py_str (PDict [(''error'', PStr e), (''city'', city),
                                           (''country'', country)])) = None"
    by (simp only: json_loads_single_quoted)
  from assms
  have "handle_get_current_weather model_dump_json get_current_weather v city country
      = ([TextContent (py_str (PDict [(''error'', PStr e), (''city'', city),
                                      (''country'', country)]))], v')"
    by (simp add: handle_get_current_weather_def)
  with j t show ?thesis
    by (simp add: extract_content_def result_content_def is_dict_def py_str_def)
qed

theorem weather_error_is_raw_text_witness:
  "handle_get_current_weather (\<lambda>d. ''{}'') failing_weather () (PStr ''Paris'') PNone
     = ([TextContent weather_error_text], ())
   \<and> json_loads weather_error_text = None
   \<and> extract_content [TextContent weather_error_text] = PStr weather_error_text"
proof -
  have f: "failing_weather () (PStr ''Paris'') PNone = (Inl ''City not found'', ())"
    by (simp add: failing_weather_def)
  have t: "py_str (PDict [(''error'', PStr ''City not found''), (''city'', PStr ''Paris''),
                          (''country'', PNone)]) = weather_error_text"
    by (simp add: py_str_def repr_str_def repr_quote_def repr_char_def weather_error_text_def
        Let_def)
  from weather_error_is_raw_text [of failing_weather "()" "PStr ''Paris''" PNone
      "''City not found''" "()" "\<lambda>d. ''{}''", OF f] t
  show ?thesis by auto
qed

section \<open>The kinds of backend failure\<close>

text \<open>
  C7 as the spec states it fails on the count: an exception of another class (a body that
  is not JSON, a broken connection) is raised with a fifth message, which belongs to none
  of the four kinds.
\<close>

theorem fifth_kind_counterexample:
  "fst (chat unexpected_post demo_llm () [] None)
     = Inl (RuntimeError ''Unexpected error communicating with Ollama: Expecting value'')
   \<and> message_kind ''Unexpected error communicating with Ollama: Expecting value''
       \<notin> {Some ConnectionFailure, Some Timeout, Some MissingModel, Some BackendError}"
  by (simp add: chat_def unexpected_post_def message_kind_def)

text \<open>
  C7, amended. A failing call of \<open>chat\<close> raises \<open>RuntimeError\<close> with one of five
  messages, and the kind of the failure can be read back from the message: connection
  failure (a hint naming the base URL), timeout (a hint), missing model on status 404 (a hint
  naming the model), any other status error (the body text), any other exception (its text).
\<close>

theorem chat_failure_kinds:
  assumes "post w (base_url self @ ''/api/chat'') (chat_payload self messages ts) = (outcome, w')"
    and "kind_of outcome = Some k"
  shows "\<exists>m. chat post self w messages ts = (Inl (RuntimeError m), w')
           \<and> message_kind m = Some k
           \<and> (k = ConnectionFailure \<longrightarrow>
                m = ''Cannot connect to Ollama at '' @ base_url self @ ''.'' @ [newline]
                    @ ''Please ensure Ollama is running:'' @ [newline] @ ''  ollama serve'')
           \<and> (k = Timeout \<longrightarrow>
                m = ''Ollama request timed out. The model might be too large or the system is busy.'')
           \<and> (k = MissingModel \<longrightarrow>
                m = ''Model '' @ [squote] @ model self @ [squote] @ '' not found in Ollama.''
                    @ [newline] @ ''Please pull the model first:'' @ [newline]
                    @ ''  ollama pull '' @ model self)
           \<and> (\<forall>status_code text.
                 outcome = HTTPStatusError status_code text \<and> k = BackendError
                 \<longrightarrow> m = ''Ollama API error: '' @ text)
           \<and> (\<forall>e. outcome = OtherException e
                 \<longrightarrow> m = ''Unexpected error communicating with Ollama: '' @ e)"
proof (cases outcome)
  case (Json result)
  with assms(2) show ?thesis by (simp add: kind_of_def)
next
  case (ConnectError e)
  with assms show ?thesis by (auto simp: chat_def kind_of_def message_kind_def)
next
  case (TimeoutException e)
  with assms show ?thesis by (auto simp: chat_def kind_of_def message_kind_def)
next
  case (HTTPStatusError status_code body)
  with assms show ?thesis
    by (cases "status_code = 404") (auto simp: chat_def kind_of_def message_kind_def)
next
  case (OtherException e)
  with assms show ?thesis by (auto simp: chat_def kind_of_def message_kind_def)
qed

theorem chat_failure_kinds_witness:
  "failing_post [] (base_url demo_llm @ ''/api/chat'') (chat_payload demo_llm [] None)
     = (ConnectError ''refused'', [''chat''])
   \<and> kind_of (ConnectError ''refused'') = Some ConnectionFailure
   \<and> chat failing_post demo_llm [] [] None
     = (Inl (RuntimeError (''Cannot connect to Ollama at http://localhost:11434.'' @ [newline]
                           @ ''Please ensure Ollama is running:'' @ [newline]
                           @ ''  ollama serve'')), [''chat''])"
proof -
  have p: "failing_post [] (base_url demo_llm @ ''/api/chat'') (chat_payload demo_llm [] None)
      = (ConnectError ''refused'', [''chat''])"
    by (simp add: failing_post_def)
  have k: "kind_of (ConnectError ''refused'') = Some ConnectionFailure"
    by (simp add: kind_of_def)
  from chat_failure_kinds [of failing_post "[]" demo_llm "[]" None "ConnectError ''refused''"
      "[''chat'']" ConnectionFailure, OF p k] p k
  show ?thesis by (auto simp: demo_llm_def)
qed

end
